theory Spec2Isabelle
  imports Main "HOL-Library.Word"
begin

section \<open>The eth/66 sensor connection: data model\<close>

text \<open>
  The development follows the Go package \<^verbatim>\<open>p2p\<close> of the sensor (the file holding
  \<^verbatim>\<open>conn\<close>, \<^verbatim>\<open>NewEth66Protocol\<close> and the message handlers). Every handler
  is a function from the connection state to an optional error and the new state.
  The collaborators the connection only holds references to are represented by what the
  code can observe of them: the transport by the history of \<^verbatim>\<open>Send\<close> calls with
  their results, the database by the history of write calls, the loggers by the lines
  written, the discovery channel by the nodes sent to it.
\<close>

type_synonym hash = "256 word"     \<comment> \<open>\<^verbatim>\<open>common.Hash\<close>, 32 bytes\<close>
type_synonym uint64 = "64 word"
type_synonym int32 = "32 word"     \<comment> \<open>read as a signed value with \<open>sint\<close>\<close>
type_synonym node = nat            \<comment> \<open>\<^verbatim>\<open>*enode.Node\<close>, an opaque peer identity\<close>
type_synonym tx = nat              \<comment> \<open>\<^verbatim>\<open>*types.Transaction\<close>, opaque here\<close>
type_synonym forkID = nat          \<comment> \<open>\<^verbatim>\<open>forkid.ID\<close>, opaque here\<close>

text \<open>\<^verbatim>\<open>types.Header\<close>: the two fields the connection reads. \<^verbatim>\<open>Number\<close> is a
  \<^verbatim>\<open>*big.Int\<close>.\<close>

record Header =
  ParentHash :: hash
  HeaderNumber :: int

text \<open>\<^verbatim>\<open>eth.BlockBody\<close>.\<close>

record BlockBody =
  BodyTransactions :: "tx list"
  BodyUncles :: "Header list"

text \<open>\<^verbatim>\<open>types.Block\<close>: \<open>BlockHeader\<close> is what \<^verbatim>\<open>Header()\<close> returns,
  \<open>BlockHash\<close> what \<^verbatim>\<open>Hash()\<close> returns; \<^verbatim>\<open>Number()\<close> is the header's number.\<close>

record Block =
  BlockHeader :: Header
  BlockHash :: hash
  Body :: BlockBody

record HeadBlock =
  Hash :: hash
  TotalDifficulty :: int
  Number :: uint64

record request =
  requestID :: uint64
  hash :: hash

text \<open>The counters of \<^verbatim>\<open>MessageCount\<close> that the handlers add to with
  \<^verbatim>\<open>atomic.AddInt32\<close>.\<close>

record MessageCount =
  BlockHeaders :: int32
  BlockBodies :: int32
  Blocks :: int32
  BlockHashes :: int32
  BlockHeaderRequests :: int32
  BlockBodiesRequests :: int32
  Transactions :: int32
  TransactionHashes :: int32
  TransactionRequests :: int32

record StatusPacket =
  ProtocolVersion :: "32 word"
  NetworkID :: uint64
  TD :: int
  Head :: hash
  Genesis :: hash
  ForkID :: forkID

datatype error =
    DecodeError
  | TransportError nat
  | ExpectedStatusCode
  | DiscUselessPeer

text \<open>The payload of an inbound message, as the decoder of the type the handler asks for
  reads it. A handler that asks for another type than the one carried gets a decode
  error.\<close>

datatype payload =
    PStatus StatusPacket
  | PNewBlockHashes "(hash \<times> uint64) list"
  | PTransactions "tx list"
  | PGetBlockHeaders uint64
  | PBlockHeaders uint64 "Header list"
  | PGetBlockBodies uint64 "hash list"
  | PBlockBodies uint64 "BlockBody list"
  | PNewBlock Block int
  | PNewPooledTransactionHashes "hash list"
  | PGetPooledTransactions uint64 "hash list"
  | PPooledTransactions uint64 "tx list"
  | PGetReceipts uint64
  | PGarbage

record Msg =
  Code :: uint64
  Payload :: payload
  Discard :: "error option"    \<comment> \<open>the result of \<^verbatim>\<open>msg.Discard()\<close>\<close>

text \<open>What the connection writes to the transport.\<close>

datatype out_msg =
    OStatus StatusPacket
  | OGetBlockHeaders uint64 hash uint64   \<comment> \<open>request id, origin hash, amount\<close>
  | OGetBlockBodies uint64 "hash list"
  | OBlockHeaders uint64
  | OBlockBodies uint64
  | OGetPooledTransactions uint64 "hash list"
  | OPooledTransactions uint64
  | OReceipts uint64

datatype db_write =
    WriteBlockHashes node "hash list"
  | WriteTransactions node "tx list"
  | WriteBlockHeaders "Header list"
  | WriteBlockBody BlockBody hash
  | WriteBlock node Block int

datatype log_entry =
    NewPeer StatusPacket
  | SettingOldestBlock Header
  | FetchingMissingParent hash int     \<comment> \<open>fields \<^verbatim>\<open>hash\<close> and \<^verbatim>\<open>number\<close>\<close>
  | NoBlockHashFound
  | SettingHeadBlock HeadBlock
  | TraceMsg uint64
  | ErrorLine error

text \<open>The answers of the collaborators. A send may fail at any time, so its result
  depends on the history of sends. The answer of \<^verbatim>\<open>HasBlock\<close> depends on the hash and
  on the writes this connection has made so far; the properties below hold for every
  such answer. The capability queries \<^verbatim>\<open>ShouldWrite...\<close> are constant.\<close>

record env =
  SendResult :: "(out_msg \<times> error option) list \<Rightarrow> out_msg \<Rightarrow> error option"
  ShouldWriteBlocks :: bool
  ShouldWriteBlockEvents :: bool
  ShouldWriteTransactions :: bool
  ShouldWriteTransactionEvents :: bool
  HasBlock :: "db_write list \<Rightarrow> hash \<Rightarrow> bool"

text \<open>The struct \<^verbatim>\<open>conn\<close>. \<open>head\<close> and \<open>count\<close> are the values behind the shared
  pointers; \<open>rw_sent\<close>, \<open>db_writes\<close> and \<open>logger\<close> are the histories of the calls made
  on \<^verbatim>\<open>rw\<close>, \<^verbatim>\<open>db\<close> and the loggers.\<close>

record conn =
  node :: node
  head :: HeadBlock
  count :: MessageCount
  requests :: "request list"
  requestNum :: uint64
  oldestBlock :: "Header option"
  rw_sent :: "(out_msg \<times> error option) list"
  db_writes :: "db_write list"
  logger :: "log_entry list"

section \<open>Sending and fetching\<close>

text \<open>\<^verbatim>\<open>ethp2p.Send(c.rw, code, data)\<close>.\<close>

definition Send :: "env \<Rightarrow> out_msg \<Rightarrow> conn \<Rightarrow> error option \<times> conn" where
  "Send e m c =
     (let r = SendResult e (rw_sent c) m
      in (r, c\<lparr>rw_sent := rw_sent c @ [(m, r)]\<rparr>))"

text \<open>\<^verbatim>\<open>getBlockData\<close>: the headers request carries no request id (the zero value), the
  counter is incremented only after it was sent, and the bodies request carries the new
  counter value.\<close>

definition getBlockData :: "env \<Rightarrow> hash \<Rightarrow> conn \<Rightarrow> error option \<times> conn" where
  "getBlockData e h c =
     (case Send e (OGetBlockHeaders 0 h 1) c of
        (Some err, c1) \<Rightarrow> (Some err, c1)
      | (None, c1) \<Rightarrow>
          (let c2 = c1\<lparr>requestNum := requestNum c1 + 1\<rparr>;
               c3 = c2\<lparr>requests := requests c2 @ [\<lparr>requestID = requestNum c2, hash = h\<rparr>]\<rparr>
           in Send e (OGetBlockBodies (requestNum c3) [h]) c3))"

section \<open>The backfill policy\<close>

text \<open>\<^verbatim>\<open>getParentBlock\<close>. \<^verbatim>\<open>header.Number.Cmp(c.oldestBlock.Number) != 1\<close> says that
  the header's number is not greater than the oldest block's. The line logged before the
  fetch carries the parent hash and the header's number minus one.\<close>

definition getParentBlock :: "env \<Rightarrow> Header \<Rightarrow> conn \<Rightarrow> error option \<times> conn" where
  "getParentBlock e header c =
     (if \<not> ShouldWriteBlocks e \<or> \<not> ShouldWriteBlockEvents e then (None, c)
      else case oldestBlock c of
        None \<Rightarrow>
          (None, c\<lparr>logger := logger c @ [SettingOldestBlock header],
                    oldestBlock := Some header\<rparr>)
      | Some oldest \<Rightarrow>
          if HasBlock e (db_writes c) (ParentHash header)
             \<or> \<not> HeaderNumber oldest < HeaderNumber header
          then (None, c)
          else getBlockData e (ParentHash header)
                 (c\<lparr>logger := logger c @
                    [FetchingMissingParent (ParentHash header) (HeaderNumber header - 1)]\<rparr>))"

section \<open>The message handlers\<close>

text \<open>\<^verbatim>\<open>int32(len(xs))\<close> keeps the low 32 bits of the length, and
  \<^verbatim>\<open>atomic.AddInt32\<close> wraps around.\<close>

definition int32_len :: "'a list \<Rightarrow> int32" where
  "int32_len xs = word_of_nat (length xs)"

text \<open>The loop of \<^verbatim>\<open>handleNewBlockHashes\<close>: every announced hash is collected and
  fetched; the first failing fetch ends the handler.\<close>

fun fetchHashes :: "env \<Rightarrow> (hash \<times> uint64) list \<Rightarrow> conn \<Rightarrow> error option \<times> conn" where
  "fetchHashes e [] c = (None, c)"
| "fetchHashes e (p # ps) c =
     (case getBlockData e (fst p) c of
        (Some err, c') \<Rightarrow> (Some err, c')
      | (None, c') \<Rightarrow> fetchHashes e ps c')"

definition handleNewBlockHashes :: "env \<Rightarrow> Msg \<Rightarrow> conn \<Rightarrow> error option \<times> conn" where
  "handleNewBlockHashes e msg c =
     (case Payload msg of
        PNewBlockHashes packet \<Rightarrow>
          (let c1 = c\<lparr>count := (count c)\<lparr>BlockHashes := BlockHashes (count c) + int32_len packet\<rparr>\<rparr>
           in case fetchHashes e packet c1 of
                (Some err, c2) \<Rightarrow> (Some err, c2)
              | (None, c2) \<Rightarrow>
                  (None, c2\<lparr>db_writes := db_writes c2 @ [WriteBlockHashes (node c2) (map fst packet)]\<rparr>))
      | _ \<Rightarrow> (Some DecodeError, c))"

definition handleTransactions :: "env \<Rightarrow> Msg \<Rightarrow> conn \<Rightarrow> error option \<times> conn" where
  "handleTransactions e msg c =
     (case Payload msg of
        PTransactions txs \<Rightarrow>
          (let c1 = c\<lparr>count := (count c)\<lparr>Transactions := Transactions (count c) + int32_len txs\<rparr>\<rparr>
           in (None, c1\<lparr>db_writes := db_writes c1 @ [WriteTransactions (node c1) txs]\<rparr>))
      | _ \<Rightarrow> (Some DecodeError, c))"

definition handleGetBlockHeaders :: "env \<Rightarrow> Msg \<Rightarrow> conn \<Rightarrow> error option \<times> conn" where
  "handleGetBlockHeaders e msg c =
     (case Payload msg of
        PGetBlockHeaders rid \<Rightarrow>
          (let c1 = c\<lparr>count := (count c)\<lparr>BlockHeaderRequests := BlockHeaderRequests (count c) + 1\<rparr>\<rparr>
           in Send e (OBlockHeaders rid) c1)
      | _ \<Rightarrow> (Some DecodeError, c))"

text \<open>The loop of \<^verbatim>\<open>handleBlockHeaders\<close>.\<close>

fun backfillHeaders :: "env \<Rightarrow> Header list \<Rightarrow> conn \<Rightarrow> error option \<times> conn" where
  "backfillHeaders e [] c = (None, c)"
| "backfillHeaders e (h # hs) c =
     (case getParentBlock e h c of
        (Some err, c') \<Rightarrow> (Some err, c')
      | (None, c') \<Rightarrow> backfillHeaders e hs c')"

definition handleBlockHeaders :: "env \<Rightarrow> Msg \<Rightarrow> conn \<Rightarrow> error option \<times> conn" where
  "handleBlockHeaders e msg c =
     (case Payload msg of
        PBlockHeaders rid headers \<Rightarrow>
          (let c1 = c\<lparr>count := (count c)\<lparr>BlockHeaders := BlockHeaders (count c) + int32_len headers\<rparr>\<rparr>
           in case backfillHeaders e headers c1 of
                (Some err, c2) \<Rightarrow> (Some err, c2)
              | (None, c2) \<Rightarrow> (None, c2\<lparr>db_writes := db_writes c2 @ [WriteBlockHeaders headers]\<rparr>))
      | _ \<Rightarrow> (Some DecodeError, c))"

definition handleGetBlockBodies :: "env \<Rightarrow> Msg \<Rightarrow> conn \<Rightarrow> error option \<times> conn" where
  "handleGetBlockBodies e msg c =
     (case Payload msg of
        PGetBlockBodies rid hashes \<Rightarrow>
          (let c1 = c\<lparr>count := (count c)\<lparr>BlockBodiesRequests :=
                          BlockBodiesRequests (count c) + int32_len hashes\<rparr>\<rparr>
           in Send e (OBlockBodies rid) c1)
      | _ \<Rightarrow> (Some DecodeError, c))"

text \<open>The scan of \<^verbatim>\<open>handleBlockBodies\<close> over \<^verbatim>\<open>c.requests\<close>, from the front: the first
  entry with the wanted identifier is removed from the list and its hash returned. Every
  element of the list is a \<^verbatim>\<open>request\<close>, so the type assertion of the source never
  fails.\<close>

fun scanRequests :: "uint64 \<Rightarrow> request list \<Rightarrow> hash option \<times> request list" where
  "scanRequests rid [] = (None, [])"
| "scanRequests rid (r # rs) =
     (if requestID r = rid then (Some (hash r), rs)
      else (case scanRequests rid rs of (h, rs') \<Rightarrow> (h, r # rs')))"

definition handleBlockBodies :: "env \<Rightarrow> Msg \<Rightarrow> conn \<Rightarrow> error option \<times> conn" where
  "handleBlockBodies e msg c =
     (case Payload msg of
        PBlockBodies rid bodies \<Rightarrow>
          (case bodies of
             [] \<Rightarrow> (None, c)
           | body0 # _ \<Rightarrow>
               (let c1 = c\<lparr>count := (count c)\<lparr>BlockBodies := BlockBodies (count c) + int32_len bodies\<rparr>\<rparr>
                in case scanRequests rid (requests c1) of
                     (None, rs) \<Rightarrow>
                       (None, c1\<lparr>requests := rs, logger := logger c1 @ [NoBlockHashFound]\<rparr>)
                   | (Some h, rs) \<Rightarrow>
                       (None, c1\<lparr>requests := rs,
                                  db_writes := db_writes c1 @ [WriteBlockBody body0 h]\<rparr>)))
      | _ \<Rightarrow> (Some DecodeError, c))"

text \<open>\<^verbatim>\<open>big.Int.Uint64\<close>: the value as a \<^verbatim>\<open>uint64\<close>. Go defines the result only for
  values that a \<^verbatim>\<open>uint64\<close> can represent; the properties below that depend on it
  assume that range.\<close>

definition Uint64 :: "int \<Rightarrow> uint64" where
  "Uint64 x = word_of_int x"

definition handleNewBlock :: "env \<Rightarrow> Msg \<Rightarrow> conn \<Rightarrow> error option \<times> conn" where
  "handleNewBlock e msg c =
     (case Payload msg of
        PNewBlock block td \<Rightarrow>
          (let c1 = c\<lparr>count := (count c)\<lparr>Blocks := Blocks (count c) + 1\<rparr>\<rparr>;
               c2 = (if Number (head c1) < Uint64 (HeaderNumber (BlockHeader block))
                        \<and> TotalDifficulty (head c1) < td
                     then (let c' = c1\<lparr>head := \<lparr>Hash = BlockHash block, TotalDifficulty = td,
                                       Number = Uint64 (HeaderNumber (BlockHeader block))\<rparr>\<rparr>
                           in c'\<lparr>logger := logger c' @ [SettingHeadBlock (head c')]\<rparr>)
                     else c1)
           in case getParentBlock e (BlockHeader block) c2 of
                (Some err, c3) \<Rightarrow> (Some err, c3)
              | (None, c3) \<Rightarrow>
                  (None, c3\<lparr>db_writes := db_writes c3 @ [WriteBlock (node c3) block td]\<rparr>))
      | _ \<Rightarrow> (Some DecodeError, c))"

definition handleGetPooledTransactions :: "env \<Rightarrow> Msg \<Rightarrow> conn \<Rightarrow> error option \<times> conn" where
  "handleGetPooledTransactions e msg c =
     (case Payload msg of
        PGetPooledTransactions rid hashes \<Rightarrow>
          (let c1 = c\<lparr>count := (count c)\<lparr>TransactionRequests :=
                          TransactionRequests (count c) + int32_len hashes\<rparr>\<rparr>
           in Send e (OPooledTransactions rid) c1)
      | _ \<Rightarrow> (Some DecodeError, c))"

definition handleNewPooledTransactionHashes :: "env \<Rightarrow> Msg \<Rightarrow> conn \<Rightarrow> error option \<times> conn" where
  "handleNewPooledTransactionHashes e msg c =
     (case Payload msg of
        PNewPooledTransactionHashes txs \<Rightarrow>
          (let c1 = c\<lparr>count := (count c)\<lparr>TransactionHashes :=
                          TransactionHashes (count c) + int32_len txs\<rparr>\<rparr>
           in if \<not> ShouldWriteTransactions e \<or> \<not> ShouldWriteTransactionEvents e then (None, c1)
              else Send e (OGetPooledTransactions 0 txs) c1)
      | _ \<Rightarrow> (Some DecodeError, c))"

definition handlePooledTransactions :: "env \<Rightarrow> Msg \<Rightarrow> conn \<Rightarrow> error option \<times> conn" where
  "handlePooledTransactions e msg c =
     (case Payload msg of
        PPooledTransactions rid txs \<Rightarrow>
          (let c1 = c\<lparr>count := (count c)\<lparr>Transactions := Transactions (count c) + int32_len txs\<rparr>\<rparr>
           in (None, c1\<lparr>db_writes := db_writes c1 @ [WriteTransactions (node c1) txs]\<rparr>))
      | _ \<Rightarrow> (Some DecodeError, c))"

definition handleGetReceipts :: "env \<Rightarrow> Msg \<Rightarrow> conn \<Rightarrow> error option \<times> conn" where
  "handleGetReceipts e msg c =
     (case Payload msg of
        PGetReceipts rid \<Rightarrow> Send e (OReceipts rid) c
      | _ \<Rightarrow> (Some DecodeError, c))"

section \<open>The protocol: status exchange and dispatch loop\<close>

text \<open>The message codes of the eth protocol (constants of go-ethereum).\<close>

definition StatusMsg :: uint64 where "StatusMsg = 0x00"
definition NewBlockHashesMsg :: uint64 where "NewBlockHashesMsg = 0x01"
definition TransactionsMsg :: uint64 where "TransactionsMsg = 0x02"
definition GetBlockHeadersMsg :: uint64 where "GetBlockHeadersMsg = 0x03"
definition BlockHeadersMsg :: uint64 where "BlockHeadersMsg = 0x04"
definition GetBlockBodiesMsg :: uint64 where "GetBlockBodiesMsg = 0x05"
definition BlockBodiesMsg :: uint64 where "BlockBodiesMsg = 0x06"
definition NewBlockMsg :: uint64 where "NewBlockMsg = 0x07"
definition NewPooledTransactionHashesMsg :: uint64 where "NewPooledTransactionHashesMsg = 0x08"
definition GetPooledTransactionsMsg :: uint64 where "GetPooledTransactionsMsg = 0x09"
definition PooledTransactionsMsg :: uint64 where "PooledTransactionsMsg = 0x0a"
definition GetReceiptsMsg :: uint64 where "GetReceiptsMsg = 0x0f"

text \<open>What \<^verbatim>\<open>rw.ReadMsg()\<close> returns: the inbound side of the transport is the list of
  these results, in order. A list that ends stands for a transport that is closed: the
  next read fails.\<close>

datatype in_event = ReadErr error | ReadOk Msg

definition closed :: error where
  "closed = TransportError 0"

text \<open>The \<^verbatim>\<open>switch\<close> on the message code in the loop of \<^verbatim>\<open>Run\<close>.\<close>

definition dispatch :: "env \<Rightarrow> Msg \<Rightarrow> conn \<Rightarrow> error option \<times> conn" where
  "dispatch e msg c =
     (if Code msg = NewBlockHashesMsg then handleNewBlockHashes e msg c
      else if Code msg = TransactionsMsg then handleTransactions e msg c
      else if Code msg = GetBlockHeadersMsg then handleGetBlockHeaders e msg c
      else if Code msg = BlockHeadersMsg then handleBlockHeaders e msg c
      else if Code msg = GetBlockBodiesMsg then handleGetBlockBodies e msg c
      else if Code msg = BlockBodiesMsg then handleBlockBodies e msg c
      else if Code msg = NewBlockMsg then handleNewBlock e msg c
      else if Code msg = NewPooledTransactionHashesMsg then handleNewPooledTransactionHashes e msg c
      else if Code msg = GetPooledTransactionsMsg then handleGetPooledTransactions e msg c
      else if Code msg = PooledTransactionsMsg then handlePooledTransactions e msg c
      else if Code msg = GetReceiptsMsg then handleGetReceipts e msg c
      else (None, c\<lparr>logger := logger c @ [TraceMsg (Code msg)]\<rparr>))"

text \<open>The \<^verbatim>\<open>for\<close> loop of \<^verbatim>\<open>Run\<close>. It ends only with an error, which is returned with
  the connection state and the inbound events not read.\<close>

fun dispatchLoop :: "env \<Rightarrow> in_event list \<Rightarrow> conn \<Rightarrow> error \<times> conn \<times> in_event list" where
  "dispatchLoop e [] c = (closed, c, [])"
| "dispatchLoop e (ReadErr err # evs) c = (err, c, evs)"
| "dispatchLoop e (ReadOk msg # evs) c =
     (case dispatch e msg c of
        (Some err, c') \<Rightarrow> (err, c'\<lparr>logger := logger c' @ [ErrorLine err]\<rparr>, evs)
      | (None, c') \<Rightarrow>
          (case Discard msg of
             Some err \<Rightarrow> (err, c', evs)
           | None \<Rightarrow> dispatchLoop e evs c'))"

text \<open>\<^verbatim>\<open>statusExchange\<close>: send the local status, read one message, check its code, decode
  it and compare the network ids.\<close>

definition statusExchange ::
  "env \<Rightarrow> StatusPacket \<Rightarrow> in_event list \<Rightarrow> conn \<Rightarrow> error option \<times> conn \<times> in_event list" where
  "statusExchange e packet evs c =
     (case Send e (OStatus packet) c of
        (Some err, c1) \<Rightarrow> (Some err, c1, evs)
      | (None, c1) \<Rightarrow>
          (case evs of
             [] \<Rightarrow> (Some closed, c1, [])
           | ReadErr err # rest \<Rightarrow> (Some err, c1, rest)
           | ReadOk msg # rest \<Rightarrow>
               if Code msg \<noteq> StatusMsg then (Some ExpectedStatusCode, c1, rest)
               else (case Payload msg of
                       PStatus status \<Rightarrow>
                         if NetworkID status \<noteq> NetworkID packet then (Some DiscUselessPeer, c1, rest)
                         else (None, c1\<lparr>logger := logger c1 @ [NewPeer status]\<rparr>, rest)
                     | _ \<Rightarrow> (Some DecodeError, c1, rest))))"

text \<open>\<^verbatim>\<open>Eth66ProtocolOptions\<close>: \<open>Opt_ForkID\<close> stands for
  \<^verbatim>\<open>forkid.NewID(opts.Genesis.Config, opts.GenesisHash, _)\<close> as a function of the head
  number. The shared head and counters are passed as values; \<open>Opt_Peers\<close> is what the
  channel \<^verbatim>\<open>Peers\<close> has received so far, and a send on the channel is taken to
  complete.\<close>

record Eth66ProtocolOptions =
  Opt_ForkID :: "uint64 \<Rightarrow> forkID"
  Opt_GenesisHash :: hash
  Opt_NetworkID :: uint64
  Opt_Head :: HeadBlock
  Opt_Count :: MessageCount
  Opt_Peers :: "node list"

text \<open>The connection that \<^verbatim>\<open>Run\<close> creates for the peer \<open>p\<close> and the status packet it
  builds from the options.\<close>

definition new_conn :: "Eth66ProtocolOptions \<Rightarrow> node \<Rightarrow> conn" where
  "new_conn opts p =
     \<lparr>node = p, head = Opt_Head opts, count = Opt_Count opts, requests = [], requestNum = 0,
      oldestBlock = None, rw_sent = [], db_writes = [], logger = []\<rparr>"

definition localStatus :: "Eth66ProtocolOptions \<Rightarrow> StatusPacket" where
  "localStatus opts =
     \<lparr>ProtocolVersion = 66, NetworkID = Opt_NetworkID opts,
      TD = TotalDifficulty (Opt_Head opts), Head = Hash (Opt_Head opts),
      Genesis = Opt_GenesisHash opts,
      ForkID = Opt_ForkID opts (Number (Opt_Head opts))\<rparr>"

text \<open>The function \<^verbatim>\<open>Run\<close> of the protocol that \<^verbatim>\<open>NewEth66Protocol\<close> returns, for the
  peer \<open>p\<close>. The result is the error returned, the final connection state, the inbound
  events not read and the content of the channel \<^verbatim>\<open>Peers\<close>.\<close>

definition Run ::
  "Eth66ProtocolOptions \<Rightarrow> env \<Rightarrow> node \<Rightarrow> in_event list
     \<Rightarrow> error \<times> conn \<times> in_event list \<times> node list" where
  "Run opts e p evs =
     (let c = new_conn opts p;
          status = localStatus opts
      in case statusExchange e status evs c of
           (Some err, c1, rest) \<Rightarrow> (err, c1, rest, Opt_Peers opts)
         | (None, c1, rest) \<Rightarrow>
             (case dispatchLoop e rest c1 of
                (err, c2, rest') \<Rightarrow> (err, c2, rest', Opt_Peers opts @ [p])))"

section \<open>Observations on the history of sends\<close>

text \<open>Every call of \<^verbatim>\<open>getBlockData\<close> starts by sending a get-headers request for the
  wanted hash, and no other function sends one: the origins of the get-headers requests
  in the history are the fetches issued, in order. The request identifiers allocated are
  those carried by the get-bodies requests; \<open>fetchesSent\<close> counts the fetches whose
  get-headers request was sent without error.\<close>

fun headersOrigin :: "out_msg \<times> error option \<Rightarrow> hash list" where
  "headersOrigin (OGetBlockHeaders rid h n, r) = [h]"
| "headersOrigin _ = []"

definition fetchesIssued :: "conn \<Rightarrow> hash list" where
  "fetchesIssued c = concat (map headersOrigin (rw_sent c))"





text \<open>The numbers of the blocks that the backfill policy announced to fetch: the
  \<^verbatim>\<open>number\<close> fields of the lines "Fetching missing parent block".\<close>

fun fetchedNumber :: "log_entry \<Rightarrow> int list" where
  "fetchedNumber (FetchingMissingParent h n) = [n]"
| "fetchedNumber _ = []"

definition backfillNumbers :: "log_entry list \<Rightarrow> int list" where
  "backfillNumbers ls = concat (map fetchedNumber ls)"

text \<open>Two relations between a connection state and a later one, used as invariants of
  the dispatch loop. \<open>floor_kept f c c'\<close>: the oldest block is \<open>f\<close> in \<open>c'\<close>, the log of
  \<open>c'\<close> extends that of \<open>c\<close>, and no line added announces the fetch of a block with a
  number below that of \<open>f\<close>. \<open>ids_inv c\<close>: the identifiers allocated so far are
  \<open>1, 2, \<dots>, k\<close> as \<^verbatim>\<open>uint64\<close> values, where \<open>k\<close> is the number of fetches whose
  get-headers request was sent, and the request counter is \<open>k\<close>.\<close>

definition floor_kept :: "Header \<Rightarrow> conn \<Rightarrow> conn \<Rightarrow> bool" where
  "floor_kept f c c' \<longleftrightarrow>
     oldestBlock c' = Some f
     \<and> (\<exists>new. logger c' = logger c @ new
            \<and> (\<forall>n\<in>set (backfillNumbers new). HeaderNumber f \<le> n))"




text \<open>The block hashes that a message sent asks for. \<open>backfill_sends hs c c'\<close>, for the
  headers \<open>hs\<close> handed to the backfill policy between the states \<open>c\<close> and \<open>c'\<close>: every
  message sent in between asks for the parent of one of these headers, whose number
  (the header's number minus one) is not below that of the oldest block; and an oldest
  block that was set stays.\<close>

fun requestHashes :: "out_msg \<times> error option \<Rightarrow> hash list" where
  "requestHashes (OGetBlockHeaders rid h n, r) = [h]"
| "requestHashes (OGetBlockBodies rid hs, r) = hs"
| "requestHashes _ = []"

definition backfill_sends :: "Header list \<Rightarrow> conn \<Rightarrow> conn \<Rightarrow> bool" where
  "backfill_sends hs c c' \<longleftrightarrow>
     (\<exists>sent. rw_sent c' = rw_sent c @ sent
        \<and> (\<forall>x\<in>set sent. \<exists>h\<in>set hs. \<exists>f. oldestBlock c' = Some f
              \<and> HeaderNumber f \<le> HeaderNumber h - 1 \<and> requestHashes x = [ParentHash h]))
     \<and> (\<forall>f. oldestBlock c = Some f \<longrightarrow> oldestBlock c' = Some f)"

section \<open>Example values\<close>

text \<open>A transport on which every send succeeds and a database that persists everything
  and knows no block; two transports on which one kind of request fails.\<close>

definition env_ok :: env where
  "env_ok = \<lparr>SendResult = (\<lambda>tr m. None), ShouldWriteBlocks = True,
     ShouldWriteBlockEvents = True, ShouldWriteTransactions = True,
     ShouldWriteTransactionEvents = True, HasBlock = (\<lambda>ws h. False)\<rparr>"

definition env_headers_fail :: env where
  "env_headers_fail = env_ok\<lparr>SendResult :=
     (\<lambda>tr m. case m of OGetBlockHeaders _ _ _ \<Rightarrow> Some (TransportError 1) | _ \<Rightarrow> None)\<rparr>"

definition env_bodies_fail :: env where
  "env_bodies_fail = env_ok\<lparr>SendResult :=
     (\<lambda>tr m. case m of OGetBlockBodies _ _ \<Rightarrow> Some (TransportError 2) | _ \<Rightarrow> None)\<rparr>"

definition env_no_blocks :: env where
  "env_no_blocks = env_ok\<lparr>ShouldWriteBlocks := False\<rparr>"

definition zero_count :: MessageCount where
  "zero_count = \<lparr>BlockHeaders = 0, BlockBodies = 0, Blocks = 0, BlockHashes = 0,
     BlockHeaderRequests = 0, BlockBodiesRequests = 0, Transactions = 0,
     TransactionHashes = 0, TransactionRequests = 0\<rparr>"

definition opts_ex :: Eth66ProtocolOptions where
  "opts_ex = \<lparr>Opt_ForkID = (\<lambda>n. 0), Opt_GenesisHash = 0xA0, Opt_NetworkID = 137,
     Opt_Head = \<lparr>Hash = 0x0A, TotalDifficulty = 100, Number = 10\<rparr>,
     Opt_Count = zero_count, Opt_Peers = []\<rparr>"

definition conn_ex :: conn where
  "conn_ex = new_conn opts_ex 7"

text \<open>Inbound messages: a new block with number 12 and parent \<open>0x0B\<close>, announced with
  total difficulty 150 and with total difficulty 90; block bodies for the request
  identifier 2, with two bodies and with none.\<close>

definition block12 :: Block where
  "block12 = \<lparr>BlockHeader = \<lparr>ParentHash = 0x0B, HeaderNumber = 12\<rparr>, BlockHash = 0x0C,
     Body = \<lparr>BodyTransactions = [], BodyUncles = []\<rparr>\<rparr>"

definition msg_block12_td150 :: Msg where
  "msg_block12_td150 = \<lparr>Code = NewBlockMsg, Payload = PNewBlock block12 150, Discard = None\<rparr>"

definition msg_block12_td90 :: Msg where
  "msg_block12_td90 = \<lparr>Code = NewBlockMsg, Payload = PNewBlock block12 90, Discard = None\<rparr>"

definition body_a :: BlockBody where
  "body_a = \<lparr>BodyTransactions = [1, 2], BodyUncles = []\<rparr>"

definition body_b :: BlockBody where
  "body_b = \<lparr>BodyTransactions = [3], BodyUncles = []\<rparr>"

definition msg_bodies :: Msg where
  "msg_bodies = \<lparr>Code = BlockBodiesMsg, Payload = PBlockBodies 2 [body_a, body_b], Discard = None\<rparr>"

definition msg_empty_bodies :: Msg where
  "msg_empty_bodies = \<lparr>Code = BlockBodiesMsg, Payload = PBlockBodies 2 [], Discard = None\<rparr>"

text \<open>A connection with three pending requests, two of them with the identifier 2.\<close>

definition conn_pending :: conn where
  "conn_pending = conn_ex\<lparr>requests :=
     [\<lparr>requestID = 1, hash = 0xA1\<rparr>, \<lparr>requestID = 2, hash = 0xA2\<rparr>, \<lparr>requestID = 2, hash = 0xA3\<rparr>],
     requestNum := 3\<rparr>"

text \<open>Headers 1000, 1001 and 1005 with their parent hashes, a connection whose oldest
  block is header 1000, and block-headers messages.\<close>

definition hdr1000 :: Header where
  "hdr1000 = \<lparr>ParentHash = 0x999, HeaderNumber = 1000\<rparr>"

definition hdr1001 :: Header where
  "hdr1001 = \<lparr>ParentHash = 0x1000, HeaderNumber = 1001\<rparr>"

definition hdr1005 :: Header where
  "hdr1005 = \<lparr>ParentHash = 0x1004, HeaderNumber = 1005\<rparr>"

definition conn_floor :: conn where
  "conn_floor = conn_ex\<lparr>oldestBlock := Some hdr1000, logger := [SettingOldestBlock hdr1000]\<rparr>"

definition msg_header1001 :: Msg where
  "msg_header1001 = \<lparr>Code = BlockHeadersMsg, Payload = PBlockHeaders 0 [hdr1001], Discard = None\<rparr>"

definition msg_headers :: Msg where
  "msg_headers = \<lparr>Code = BlockHeadersMsg, Payload = PBlockHeaders 0 [hdr1000, hdr1005, hdr1001],
     Discard = None\<rparr>"

text \<open>Status messages of a peer on another network and of a peer on the same network.\<close>

definition status_mainnet :: StatusPacket where
  "status_mainnet = \<lparr>ProtocolVersion = 66, NetworkID = 1, TD = 5, Head = 0x77, Genesis = 0xA0,
     ForkID = 0\<rparr>"

definition status_polygon :: StatusPacket where
  "status_polygon = \<lparr>ProtocolVersion = 66, NetworkID = 137, TD = 5, Head = 0x77, Genesis = 0xA0,
     ForkID = 0\<rparr>"

definition msg_status_mainnet :: Msg where
  "msg_status_mainnet = \<lparr>Code = StatusMsg, Payload = PStatus status_mainnet, Discard = None\<rparr>"

definition msg_status_polygon :: Msg where
  "msg_status_polygon = \<lparr>Code = StatusMsg, Payload = PStatus status_polygon, Discard = None\<rparr>"

text \<open>A connection whose shared counter of blocks is at the largest \<^verbatim>\<open>int32\<close>.\<close>

definition conn_full :: conn where
  "conn_full = conn_ex\<lparr>count := zero_count\<lparr>Blocks := 0x7FFFFFFF\<rparr>\<rparr>"

text \<open>More inbound messages, one for each counted category, and the inbound side of a
  session: the peer's status, two announced hashes, three headers.\<close>

definition msg_hashes :: Msg where
  "msg_hashes = \<lparr>Code = NewBlockHashesMsg, Payload = PNewBlockHashes [(0xB1, 21), (0xB2, 22)],
     Discard = None\<rparr>"

definition msg_txs :: Msg where
  "msg_txs = \<lparr>Code = TransactionsMsg, Payload = PTransactions [1, 2, 3], Discard = None\<rparr>"

definition msg_pooled :: Msg where
  "msg_pooled = \<lparr>Code = PooledTransactionsMsg, Payload = PPooledTransactions 0 [4],
     Discard = None\<rparr>"


text \<open>A new block whose number does not fit a \<^verbatim>\<open>uint64\<close>.\<close>

definition block_big :: Block where
  "block_big = \<lparr>BlockHeader = \<lparr>ParentHash = 0x0B, HeaderNumber = 2 ^ 64 + 5\<rparr>, BlockHash = 0x0D,
     Body = \<lparr>BodyTransactions = [], BodyUncles = []\<rparr>\<rparr>"

definition msg_block_big :: Msg where
  "msg_block_big = \<lparr>Code = NewBlockMsg, Payload = PNewBlock block_big 150, Discard = None\<rparr>"

section \<open>Properties\<close>

subsection \<open>What a fetch does\<close>

lemma getBlockData_fail:
  assumes "SendResult e (rw_sent c) (OGetBlockHeaders 0 h 1) = Some err"
  shows "getBlockData e h c =
           (Some err, c\<lparr>rw_sent := rw_sent c @ [(OGetBlockHeaders 0 h 1, Some err)]\<rparr>)"
  using assms by (simp add: getBlockData_def Send_def Let_def)

lemma getBlockData_ok:
  assumes "SendResult e (rw_sent c) (OGetBlockHeaders 0 h 1) = None"
  shows "getBlockData e h c =
           (SendResult e (rw_sent c @ [(OGetBlockHeaders 0 h 1, None)])
              (OGetBlockBodies (requestNum c + 1) [h]),
            c\<lparr>requestNum := requestNum c + 1,
              requests := requests c @ [\<lparr>requestID = requestNum c + 1, hash = h\<rparr>],
              rw_sent := rw_sent c @
                [(OGetBlockHeaders 0 h 1, None),
                 (OGetBlockBodies (requestNum c + 1) [h],
                  SendResult e (rw_sent c @ [(OGetBlockHeaders 0 h 1, None)])
                    (OGetBlockBodies (requestNum c + 1) [h]))]\<rparr>)"
  using assms by (simp add: getBlockData_def Send_def Let_def)

subsection \<open>What the fetches and the backfill policy leave alone\<close>

lemma Send_frame:
  assumes "Send e m c = (r, c')"
  shows "node c' = node c" "head c' = head c" "count c' = count c" "requests c' = requests c"
    "requestNum c' = requestNum c" "oldestBlock c' = oldestBlock c"
    "db_writes c' = db_writes c" "logger c' = logger c"
  using assms by (auto simp: Send_def Let_def)

lemma getBlockData_frame:
  assumes "getBlockData e h c = (r, c')"
  shows "node c' = node c" "head c' = head c" "count c' = count c"
    "oldestBlock c' = oldestBlock c" "db_writes c' = db_writes c" "logger c' = logger c"
  using assms
  by (cases "SendResult e (rw_sent c) (OGetBlockHeaders 0 h 1)";
      auto simp: getBlockData_fail getBlockData_ok)+

lemma getParentBlock_frame:
  assumes "getParentBlock e hdr c = (r, c')"
  shows "node c' = node c" "head c' = head c" "count c' = count c" "db_writes c' = db_writes c"
  using assms
  by (auto simp: getParentBlock_def split: if_splits option.splits dest: getBlockData_frame)

lemma fetchHashes_frame:
  assumes "fetchHashes e ps c = (r, c')"
  shows "node c' = node c \<and> head c' = head c \<and> count c' = count c \<and>
    oldestBlock c' = oldestBlock c \<and> db_writes c' = db_writes c \<and> logger c' = logger c"
  using assms
proof (induction ps arbitrary: c)
  case Nil
  then show ?case by simp
next
  case (Cons p ps)
  obtain r1 c1 where g: "getBlockData e (fst p) c = (r1, c1)"
    by (cases "getBlockData e (fst p) c")
  show ?case
  proof (cases r1)
    case None
    with Cons.prems g have "fetchHashes e ps c1 = (r, c')" by simp
    from Cons.IH [OF this] getBlockData_frame [OF g] show ?thesis by simp
  next
    case (Some err)
    with Cons.prems g have "c' = c1" by simp
    with getBlockData_frame [OF g] show ?thesis by simp
  qed
qed

lemma backfillHeaders_frame:
  assumes "backfillHeaders e hs c = (r, c')"
  shows "node c' = node c \<and> head c' = head c \<and> count c' = count c \<and> db_writes c' = db_writes c"
  using assms
proof (induction hs arbitrary: c)
  case Nil
  then show ?case by simp
next
  case (Cons h hs)
  obtain r1 c1 where g: "getParentBlock e h c = (r1, c1)"
    by (cases "getParentBlock e h c")
  show ?case
  proof (cases r1)
    case None
    with Cons.prems g have "backfillHeaders e hs c1 = (r, c')" by simp
    from Cons.IH [OF this] getParentBlock_frame [OF g] show ?thesis by simp
  next
    case (Some err)
    with Cons.prems g have "c' = c1" by simp
    with getParentBlock_frame [OF g] show ?thesis by simp
  qed
qed

subsection \<open>Reading a block number as a \<^verbatim>\<open>uint64\<close>\<close>

lemma Uint64_less:
  assumes "0 \<le> n" and "n < 2 ^ 64"
  shows "w < Uint64 n \<longleftrightarrow> uint w < n" and "uint (Uint64 n) = n"
proof -
  show u: "uint (Uint64 n) = n"
    using assms by (simp add: Uint64_def uint_word_of_int take_bit_int_eq_self)
  show "w < Uint64 n \<longleftrightarrow> uint w < n"
    by (simp add: word_less_def u)
qed

subsection \<open>The scan of the pending requests\<close>

lemma scanRequests_no_match:
  "\<forall>x\<in>set rs. requestID x \<noteq> rid \<Longrightarrow> scanRequests rid rs = (None, rs)"
  by (induction rs) auto

lemma scanRequests_match:
  "\<forall>x\<in>set pre. requestID x \<noteq> rid \<Longrightarrow> requestID r = rid \<Longrightarrow>
     scanRequests rid (pre @ r # post) = (Some (hash r), pre @ post)"
  by (induction pre) auto

lemma scanRequests_find:
  "find (\<lambda>r. requestID r = rid) rs = Some r \<Longrightarrow>
     \<exists>rs'. scanRequests rid rs = (Some (hash r), rs') \<and> length rs = Suc (length rs')"
  by (induction rs) (auto split: if_splits)

subsection \<open>The fetches issued\<close>

lemma getBlockData_fetchesIssued:
  "fetchesIssued (snd (getBlockData e h c)) = fetchesIssued c @ [h]"
  by (cases "SendResult e (rw_sent c) (OGetBlockHeaders 0 h 1)")
     (simp_all add: getBlockData_fail getBlockData_ok fetchesIssued_def)

subsection \<open>The status exchange\<close>

lemma statusExchange_ok_iff:
  "fst (statusExchange e st evs c) = None \<longleftrightarrow>
     SendResult e (rw_sent c) (OStatus st) = None
     \<and> (\<exists>msg rest status. evs = ReadOk msg # rest \<and> Code msg = StatusMsg
           \<and> Payload msg = PStatus status \<and> NetworkID status = NetworkID st)"
  by (auto simp: statusExchange_def Send_def Let_def
           split: option.splits list.splits in_event.splits payload.splits)

lemma statusExchange_failed:
  assumes "fst (statusExchange e st evs c) \<noteq> None"
  shows "fst (snd (statusExchange e st evs c)) =
           c\<lparr>rw_sent := rw_sent c @ [(OStatus st, SendResult e (rw_sent c) (OStatus st))]\<rparr>
       \<and> snd (snd (statusExchange e st evs c)) =
           (if SendResult e (rw_sent c) (OStatus st) = None then tl evs else evs)"
proof (cases "SendResult e (rw_sent c) (OStatus st)")
  case (Some err)
  then show ?thesis by (simp add: statusExchange_def Send_def Let_def)
next
  case None
  show ?thesis
  proof (cases evs)
    case Nil
    with None show ?thesis by (simp add: statusExchange_def Send_def Let_def)
  next
    case (Cons ev rest)
    show ?thesis
    proof (cases ev)
      case (ReadErr err)
      with None Cons show ?thesis by (simp add: statusExchange_def Send_def Let_def)
    next
      case (ReadOk msg)
      show ?thesis
      proof (cases "Payload msg")
        case (PStatus status)
        with None Cons ReadOk assms show ?thesis
          by (simp add: statusExchange_def Send_def Let_def split: if_splits)
      qed (use None Cons ReadOk in \<open>simp_all add: statusExchange_def Send_def Let_def\<close>)
    qed
  qed
qed

lemma statusExchange_succeeded:
  assumes "SendResult e (rw_sent c) (OStatus st) = None" and "evs = ReadOk msg # rest"
    and "Code msg = StatusMsg" and "Payload msg = PStatus status"
    and "NetworkID status = NetworkID st"
  shows "statusExchange e st evs c =
           (None, c\<lparr>rw_sent := rw_sent c @ [(OStatus st, None)],
                     logger := logger c @ [NewPeer status]\<rparr>, rest)"
  using assms by (simp add: statusExchange_def Send_def Let_def)

subsection \<open>The counters\<close>

lemma sint_add_len:
  assumes "sint (x :: int32) + int (length xs) < 2 ^ 31"
  shows "sint (x + int32_len xs) = sint x + int (length xs)"
proof -
  have lo: "- (2 ^ 31) \<le> sint x"
    using sint_ge [of x] by simp
  have "x + int32_len xs = word_of_int (sint x + int (length xs))"
    by (simp add: int32_len_def)
  then have "sint (x + int32_len xs) = signed_take_bit 31 (sint x + int (length xs))"
    by (simp only: sint_sbintrunc') simp
  also have "\<dots> = sint x + int (length xs)"
    using assms lo by (intro signed_take_bit_int_eq_self) simp_all
  finally show ?thesis .
qed

lemma sint_add_one:
  assumes "sint (x :: int32) + 1 < 2 ^ 31"
  shows "sint (x + 1) = sint x + 1"
  using sint_add_len [of x "[()]"] assms by (simp add: int32_len_def)

lemma handleNewBlockHashes_count:
  assumes "Payload msg = PNewBlockHashes packet"
  shows "count (snd (handleNewBlockHashes e msg c)) =
           (count c)\<lparr>BlockHashes := BlockHashes (count c) + int32_len packet\<rparr>"
  using assms
  by (auto simp: handleNewBlockHashes_def Let_def split: prod.splits option.splits
           dest!: fetchHashes_frame)

lemma handleTransactions_count:
  assumes "Payload msg = PTransactions txs"
  shows "count (snd (handleTransactions e msg c)) =
           (count c)\<lparr>Transactions := Transactions (count c) + int32_len txs\<rparr>"
  using assms by (simp add: handleTransactions_def Let_def)

lemma handlePooledTransactions_count:
  assumes "Payload msg = PPooledTransactions rid txs"
  shows "count (snd (handlePooledTransactions e msg c)) =
           (count c)\<lparr>Transactions := Transactions (count c) + int32_len txs\<rparr>"
  using assms by (simp add: handlePooledTransactions_def Let_def)

lemma handleBlockHeaders_count:
  assumes "Payload msg = PBlockHeaders rid headers"
  shows "count (snd (handleBlockHeaders e msg c)) =
           (count c)\<lparr>BlockHeaders := BlockHeaders (count c) + int32_len headers\<rparr>"
  using assms
  by (auto simp: handleBlockHeaders_def Let_def split: prod.splits option.splits
           dest!: backfillHeaders_frame)

lemma handleBlockBodies_count:
  assumes "Payload msg = PBlockBodies rid bodies"
  shows "count (snd (handleBlockBodies e msg c)) =
           (count c)\<lparr>BlockBodies := BlockBodies (count c) + int32_len bodies\<rparr>"
  using assms
  by (auto simp: handleBlockBodies_def Let_def int32_len_def
           split: prod.splits option.splits list.splits)

lemma handleNewBlock_count:
  assumes "Payload msg = PNewBlock block td"
  shows "count (snd (handleNewBlock e msg c)) = (count c)\<lparr>Blocks := Blocks (count c) + 1\<rparr>"
  using assms
  by (auto simp: handleNewBlock_def Let_def split: prod.splits option.splits
           dest!: getParentBlock_frame(3))

subsection \<open>The floor of the backfill is an invariant of the dispatch loop\<close>

lemma floor_kept_same:
  "oldestBlock c' = Some f \<Longrightarrow> logger c' = logger c \<Longrightarrow> floor_kept f c c'"
  by (simp add: floor_kept_def backfillNumbers_def)

lemma floor_kept_line:
  "oldestBlock c' = Some f \<Longrightarrow> logger c' = logger c @ [x] \<Longrightarrow>
     \<forall>n\<in>set (fetchedNumber x). HeaderNumber f \<le> n \<Longrightarrow> floor_kept f c c'"
  by (simp add: floor_kept_def backfillNumbers_def)

lemma floor_kept_trans:
  "floor_kept f a b \<Longrightarrow> floor_kept f b c \<Longrightarrow> floor_kept f a c"
  by (auto simp: floor_kept_def backfillNumbers_def)

lemma floor_kept_floor: "floor_kept f c c' \<Longrightarrow> oldestBlock c' = Some f"
  by (simp add: floor_kept_def)

lemma getBlockData_floor:
  assumes "oldestBlock c = Some f" and "getBlockData e h c = (r, c')"
  shows "floor_kept f c c'"
  using assms getBlockData_frame [OF assms(2)] by (simp add: floor_kept_same)

lemma getParentBlock_floor:
  assumes "oldestBlock c = Some f" and "getParentBlock e hdr c = (r, c')"
  shows "floor_kept f c c'"
proof (cases "\<not> ShouldWriteBlocks e \<or> \<not> ShouldWriteBlockEvents e
    \<or> HasBlock e (db_writes c) (ParentHash hdr) \<or> \<not> HeaderNumber f < HeaderNumber hdr")
  case True
  with assms have "c' = c" by (auto simp: getParentBlock_def split: if_splits)
  with assms(1) show ?thesis by (simp add: floor_kept_same)
next
  case False
  let ?c1 = "c\<lparr>logger := logger c @
               [FetchingMissingParent (ParentHash hdr) (HeaderNumber hdr - 1)]\<rparr>"
  from False assms have g: "getBlockData e (ParentHash hdr) ?c1 = (r, c')"
    by (simp add: getParentBlock_def)
  from False assms(1) have "floor_kept f c ?c1"
    by (intro floor_kept_line [where x = "FetchingMissingParent (ParentHash hdr) (HeaderNumber hdr - 1)"])
       simp_all
  moreover have "floor_kept f ?c1 c'"
    using assms(1) by (intro getBlockData_floor [OF _ g]) simp
  ultimately show ?thesis by (rule floor_kept_trans)
qed

lemma fetchHashes_floor:
  assumes "oldestBlock c = Some f" and "fetchHashes e ps c = (r, c')"
  shows "floor_kept f c c'"
  using assms fetchHashes_frame [OF assms(2)] by (simp add: floor_kept_same)

lemma backfillHeaders_floor:
  assumes "oldestBlock c = Some f" and "backfillHeaders e hs c = (r, c')"
  shows "floor_kept f c c'"
  using assms
proof (induction hs arbitrary: c)
  case Nil
  then show ?case by (simp add: floor_kept_same)
next
  case (Cons h hs)
  obtain r1 c1 where g: "getParentBlock e h c = (r1, c1)"
    by (cases "getParentBlock e h c")
  have k: "floor_kept f c c1"
    by (rule getParentBlock_floor [OF Cons.prems(1) g])
  show ?case
  proof (cases r1)
    case None
    with Cons.prems g have "backfillHeaders e hs c1 = (r, c')" by simp
    from Cons.IH [OF floor_kept_floor [OF k] this] k show ?thesis
      by (blast intro: floor_kept_trans)
  next
    case (Some err)
    with Cons.prems g have "c' = c1" by simp
    with k show ?thesis by simp
  qed
qed

text \<open>Updates that do not touch the floor or the log.\<close>

lemma floor_kept_upd:
  "floor_kept f c c' \<Longrightarrow> floor_kept f c (c'\<lparr>db_writes := w\<rparr>)"
  "floor_kept f c c' \<Longrightarrow> floor_kept f c (c'\<lparr>count := n\<rparr>)"
  "floor_kept f c c' \<Longrightarrow> floor_kept f c (c'\<lparr>requests := rs\<rparr>)"
  "floor_kept f c c' \<Longrightarrow> floor_kept f c (c'\<lparr>head := hd'\<rparr>)"
  "floor_kept f (c\<lparr>count := n\<rparr>) c' \<longleftrightarrow> floor_kept f c c'"
  by (simp_all add: floor_kept_def)

lemma floor_kept_log:
  "floor_kept f c c' \<Longrightarrow> fetchedNumber x = [] \<Longrightarrow>
     floor_kept f c (c'\<lparr>logger := logger c' @ [x]\<rparr>)"
  by (auto simp: floor_kept_def backfillNumbers_def)

lemma Send_floor:
  assumes "oldestBlock c = Some f" and "Send e m c = (r, c')"
  shows "floor_kept f c c'"
  using assms Send_frame [OF assms(2)] by (simp add: floor_kept_same)

lemma handleNewBlockHashes_floor:
  assumes "oldestBlock c = Some f" and "handleNewBlockHashes e msg c = (r, c')"
  shows "floor_kept f c c'"
  using assms
  by (auto simp: handleNewBlockHashes_def Let_def floor_kept_same floor_kept_upd
           split: payload.splits prod.splits option.splits
           dest!: fetchHashes_floor [rotated])


lemma handleTransactions_floor:
  assumes "oldestBlock c = Some f" and "handleTransactions e msg c = (r, c')"
  shows "floor_kept f c c'"
  using assms
  by (auto simp: handleTransactions_def Let_def floor_kept_same split: payload.splits)

lemma handleGetBlockHeaders_floor:
  assumes "oldestBlock c = Some f" and "handleGetBlockHeaders e msg c = (r, c')"
  shows "floor_kept f c c'"
  using assms
  by (auto simp: handleGetBlockHeaders_def Let_def Send_def floor_kept_same split: payload.splits)

lemma handleBlockHeaders_floor:
  assumes "oldestBlock c = Some f" and "handleBlockHeaders e msg c = (r, c')"
  shows "floor_kept f c c'"
  using assms
  by (auto simp: handleBlockHeaders_def Let_def floor_kept_same floor_kept_upd
           split: payload.splits prod.splits option.splits
           dest!: backfillHeaders_floor [rotated])

lemma handleGetBlockBodies_floor:
  assumes "oldestBlock c = Some f" and "handleGetBlockBodies e msg c = (r, c')"
  shows "floor_kept f c c'"
  using assms
  by (auto simp: handleGetBlockBodies_def Let_def Send_def floor_kept_same split: payload.splits)

lemma handleBlockBodies_floor:
  assumes "oldestBlock c = Some f" and "handleBlockBodies e msg c = (r, c')"
  shows "floor_kept f c c'"
  using assms
  by (auto simp: handleBlockBodies_def Let_def floor_kept_same floor_kept_line
           split: payload.splits list.splits prod.splits option.splits)

lemma handleNewBlock_floor:
  assumes "oldestBlock c = Some f" and "handleNewBlock e msg c = (r, c')"
  shows "floor_kept f c c'"
proof (cases "Payload msg")
  case (PNewBlock block td)
  let ?c1 = "c\<lparr>count := (count c)\<lparr>Blocks := Blocks (count c) + 1\<rparr>\<rparr>"
  let ?n = "Uint64 (HeaderNumber (BlockHeader block))"
  let ?new = "\<lparr>Hash = BlockHash block, TotalDifficulty = td, Number = ?n\<rparr>"
  define c2 where "c2 =
    (if Number (head c) < ?n \<and> TotalDifficulty (head c) < td
     then ?c1\<lparr>head := ?new, logger := logger c @ [SettingHeadBlock ?new]\<rparr> else ?c1)"
  have k2: "floor_kept f c c2"
    using assms(1) by (simp add: c2_def floor_kept_same floor_kept_line)
  obtain r3 c3 where g: "getParentBlock e (BlockHeader block) c2 = (r3, c3)"
    by (cases "getParentBlock e (BlockHeader block) c2")
  have k3: "floor_kept f c2 c3"
    by (rule getParentBlock_floor [OF floor_kept_floor [OF k2] g])
  have "c' = c3 \<or> c' = c3\<lparr>db_writes := db_writes c3 @ [WriteBlock (node c3) block td]\<rparr>"
    using assms(2) PNewBlock g
    by (auto simp: handleNewBlock_def Let_def c2_def split: option.splits if_splits)
  with floor_kept_trans [OF k2 k3] show ?thesis
    by (auto simp: floor_kept_upd)
qed (use assms in \<open>auto simp: handleNewBlock_def floor_kept_same\<close>)

lemma handleGetPooledTransactions_floor:
  assumes "oldestBlock c = Some f" and "handleGetPooledTransactions e msg c = (r, c')"
  shows "floor_kept f c c'"
  using assms
  by (auto simp: handleGetPooledTransactions_def Let_def Send_def floor_kept_same
           split: payload.splits)

lemma handleNewPooledTransactionHashes_floor:
  assumes "oldestBlock c = Some f" and "handleNewPooledTransactionHashes e msg c = (r, c')"
  shows "floor_kept f c c'"
  using assms
  by (auto simp: handleNewPooledTransactionHashes_def Let_def Send_def floor_kept_same
           split: payload.splits if_splits)

lemma handlePooledTransactions_floor:
  assumes "oldestBlock c = Some f" and "handlePooledTransactions e msg c = (r, c')"
  shows "floor_kept f c c'"
  using assms
  by (auto simp: handlePooledTransactions_def Let_def floor_kept_same split: payload.splits)

lemma handleGetReceipts_floor:
  assumes "oldestBlock c = Some f" and "handleGetReceipts e msg c = (r, c')"
  shows "floor_kept f c c'"
  using assms
  by (auto simp: handleGetReceipts_def Let_def Send_def floor_kept_same split: payload.splits)

lemma dispatch_cases:
  assumes "P (handleNewBlockHashes e msg c)" and "P (handleTransactions e msg c)"
    and "P (handleGetBlockHeaders e msg c)" and "P (handleBlockHeaders e msg c)"
    and "P (handleGetBlockBodies e msg c)" and "P (handleBlockBodies e msg c)"
    and "P (handleNewBlock e msg c)" and "P (handleNewPooledTransactionHashes e msg c)"
    and "P (handleGetPooledTransactions e msg c)" and "P (handlePooledTransactions e msg c)"
    and "P (handleGetReceipts e msg c)"
    and "P (None, c\<lparr>logger := logger c @ [TraceMsg (Code msg)]\<rparr>)"
  shows "P (dispatch e msg c)"
  using assms by (simp add: dispatch_def)

lemma dispatch_floor:
  assumes "oldestBlock c = Some f" and "dispatch e msg c = (r, c')"
  shows "floor_kept f c c'"
proof -
  note p = prod.collapse [symmetric]
  have "floor_kept f c (snd (dispatch e msg c))"
  proof (rule dispatch_cases)
    show "floor_kept f c (snd (None, c\<lparr>logger := logger c @ [TraceMsg (Code msg)]\<rparr>))"
      using assms(1) by (simp add: floor_kept_line)
  qed (rule handleNewBlockHashes_floor [OF assms(1) p] handleTransactions_floor [OF assms(1) p]
        handleGetBlockHeaders_floor [OF assms(1) p] handleBlockHeaders_floor [OF assms(1) p]
        handleGetBlockBodies_floor [OF assms(1) p] handleBlockBodies_floor [OF assms(1) p]
        handleNewBlock_floor [OF assms(1) p] handleNewPooledTransactionHashes_floor [OF assms(1) p]
        handleGetPooledTransactions_floor [OF assms(1) p] handlePooledTransactions_floor [OF assms(1) p]
        handleGetReceipts_floor [OF assms(1) p])+
  with assms(2) show ?thesis by simp
qed

lemma dispatchLoop_floor:
  assumes "oldestBlock c = Some f" and "dispatchLoop e evs c = (err, c', rest)"
  shows "floor_kept f c c'"
  using assms
proof (induction e evs c rule: dispatchLoop.induct)
  case (1 e c)
  then show ?case by (simp add: floor_kept_same)
next
  case (2 e err' evs c)
  then show ?case by (simp add: floor_kept_same)
next
  case (3 e msg evs c)
  obtain r1 c1 where d: "dispatch e msg c = (r1, c1)"
    by (cases "dispatch e msg c")
  have k: "floor_kept f c c1"
    by (rule dispatch_floor [OF "3.prems"(1) d])
  show ?case
  proof (cases r1)
    case (Some er)
    with "3.prems"(2) d have "c' = c1\<lparr>logger := logger c1 @ [ErrorLine er]\<rparr>" by auto
    with k show ?thesis by (simp add: floor_kept_log)
  next
    case None
    show ?thesis
    proof (cases "Discard msg")
      case (Some er)
      with None "3.prems"(2) d have "c' = c1" by simp
      with k show ?thesis by simp
    next
      case N: None
      with None "3.prems"(2) d have "dispatchLoop e evs c1 = (err, c', rest)" by simp
      from "3.IH" [OF d [symmetric] _ N floor_kept_floor [OF k] this] None k show ?thesis
        by (auto intro: floor_kept_trans)
    qed
  qed
qed

subsection \<open>The request identifiers are an invariant of the dispatch loop\<close>


























subsection \<open>A failed get-headers request ends the run\<close>



























subsection \<open>What the backfill policy sends\<close>

lemma getBlockData_requests:
  assumes "getBlockData e h c = (r, c')"
  shows "\<exists>sent. rw_sent c' = rw_sent c @ sent \<and> (\<forall>x\<in>set sent. requestHashes x = [h])"
proof (cases "SendResult e (rw_sent c) (OGetBlockHeaders 0 h 1)")
  case None
  from assms have "c' = snd (getBlockData e h c)" by simp
  then show ?thesis unfolding getBlockData_ok [OF None] by simp
next
  case (Some err)
  from assms have "c' = snd (getBlockData e h c)" by simp
  then show ?thesis unfolding getBlockData_fail [OF Some] by simp
qed

lemma getParentBlock_floor_set:
  assumes "oldestBlock c = Some f" and "getParentBlock e hdr c = (r, c')"
  shows "oldestBlock c' = Some f
       \<and> (rw_sent c' = rw_sent c
          \<or> HeaderNumber f \<le> HeaderNumber hdr - 1
            \<and> fetchesIssued c' = fetchesIssued c @ [ParentHash hdr]
            \<and> (\<exists>sent. rw_sent c' = rw_sent c @ sent
                  \<and> (\<forall>x\<in>set sent. requestHashes x = [ParentHash hdr])))"
proof (cases "\<not> ShouldWriteBlocks e \<or> \<not> ShouldWriteBlockEvents e
    \<or> HasBlock e (db_writes c) (ParentHash hdr) \<or> \<not> HeaderNumber f < HeaderNumber hdr")
  case True
  with assms have "c' = c" by (auto simp: getParentBlock_def split: if_splits)
  with assms(1) show ?thesis by simp
next
  case False
  let ?c1 = "c\<lparr>logger := logger c @
               [FetchingMissingParent (ParentHash hdr) (HeaderNumber hdr - 1)]\<rparr>"
  from False assms have g: "getBlockData e (ParentHash hdr) ?c1 = (r, c')"
    by (simp add: getParentBlock_def)
  from getBlockData_frame(4) [OF g] assms(1) have o: "oldestBlock c' = Some f" by simp
  from getBlockData_fetchesIssued [of e "ParentHash hdr" ?c1] g
  have i: "fetchesIssued c' = fetchesIssued c @ [ParentHash hdr]"
    by (simp add: fetchesIssued_def)
  from getBlockData_requests [OF g]
  have s: "\<exists>sent. rw_sent c' = rw_sent c @ sent
      \<and> (\<forall>x\<in>set sent. requestHashes x = [ParentHash hdr])"
    by simp
  from False have "HeaderNumber f \<le> HeaderNumber hdr - 1" by simp
  with o i s show ?thesis by blast
qed

lemma getParentBlock_floor_unset:
  assumes "oldestBlock c = None" and "getParentBlock e hdr c = (r, c')"
  shows "rw_sent c' = rw_sent c \<and> (oldestBlock c' = None \<or> oldestBlock c' = Some hdr)"
  using assms by (auto simp: getParentBlock_def split: if_splits)

lemma backfill_sends_refl:
  "rw_sent c' = rw_sent c \<Longrightarrow> \<forall>f. oldestBlock c = Some f \<longrightarrow> oldestBlock c' = Some f \<Longrightarrow>
     backfill_sends hs c c'"
  by (simp add: backfill_sends_def)

lemma backfill_sends_trans:
  assumes "backfill_sends hs1 a b" and "backfill_sends hs2 b c"
  shows "backfill_sends (hs1 @ hs2) a c"
proof -
  from assms(1) obtain s1 where s1: "rw_sent b = rw_sent a @ s1"
    "\<forall>x\<in>set s1. \<exists>h\<in>set hs1. \<exists>f. oldestBlock b = Some f
        \<and> HeaderNumber f \<le> HeaderNumber h - 1 \<and> requestHashes x = [ParentHash h]"
    and f1: "\<forall>f. oldestBlock a = Some f \<longrightarrow> oldestBlock b = Some f"
    by (auto simp: backfill_sends_def)
  from assms(2) obtain s2 where s2: "rw_sent c = rw_sent b @ s2"
    "\<forall>x\<in>set s2. \<exists>h\<in>set hs2. \<exists>f. oldestBlock c = Some f
        \<and> HeaderNumber f \<le> HeaderNumber h - 1 \<and> requestHashes x = [ParentHash h]"
    and f2: "\<forall>f. oldestBlock b = Some f \<longrightarrow> oldestBlock c = Some f"
    by (auto simp: backfill_sends_def)
  have "\<forall>x\<in>set (s1 @ s2). \<exists>h\<in>set (hs1 @ hs2). \<exists>f. oldestBlock c = Some f
        \<and> HeaderNumber f \<le> HeaderNumber h - 1 \<and> requestHashes x = [ParentHash h]"
  proof
    fix x assume "x \<in> set (s1 @ s2)"
    then consider "x \<in> set s1" | "x \<in> set s2" by auto
    then show "\<exists>h\<in>set (hs1 @ hs2). \<exists>f. oldestBlock c = Some f
        \<and> HeaderNumber f \<le> HeaderNumber h - 1 \<and> requestHashes x = [ParentHash h]"
    proof cases
      case 1
      with s1(2) obtain h f where "h \<in> set hs1" "oldestBlock b = Some f"
        "HeaderNumber f \<le> HeaderNumber h - 1" "requestHashes x = [ParentHash h]"
        by blast
      with f2 show ?thesis by auto
    next
      case 2
      with s2(2) obtain h f where "h \<in> set hs2" "oldestBlock c = Some f"
        "HeaderNumber f \<le> HeaderNumber h - 1" "requestHashes x = [ParentHash h]"
        by blast
      then show ?thesis by auto
    qed
  qed
  moreover have "rw_sent c = rw_sent a @ (s1 @ s2)" using s1(1) s2(1) by simp
  ultimately show ?thesis using f1 f2 unfolding backfill_sends_def by blast
qed

lemma getParentBlock_sends:
  assumes "getParentBlock e hdr c = (r, c')"
  shows "backfill_sends [hdr] c c'"
proof (cases "oldestBlock c")
  case None
  from getParentBlock_floor_unset [OF None assms] None show ?thesis
    by (simp add: backfill_sends_def)
next
  case (Some f)
  from getParentBlock_floor_set [OF Some assms] Some show ?thesis
    unfolding backfill_sends_def by auto
qed

lemma backfillHeaders_sends:
  assumes "backfillHeaders e hs c = (r, c')"
  shows "backfill_sends hs c c'"
  using assms
proof (induction hs arbitrary: c)
  case Nil
  then show ?case by (simp add: backfill_sends_def)
next
  case (Cons h hs)
  obtain r1 c1 where g: "getParentBlock e h c = (r1, c1)"
    by (cases "getParentBlock e h c")
  have k: "backfill_sends [h] c c1" by (rule getParentBlock_sends [OF g])
  show ?case
  proof (cases r1)
    case None
    with Cons.prems g have "backfillHeaders e hs c1 = (r, c')" by simp
    from backfill_sends_trans [OF k Cons.IH [OF this]] show ?thesis by simp
  next
    case (Some err)
    with Cons.prems g have "c' = c1" by simp
    moreover have "backfill_sends hs c1 c1" by (simp add: backfill_sends_def)
    ultimately show ?thesis using backfill_sends_trans [OF k, of hs c1] by simp
  qed
qed

lemma backfill_sends_upd:
  "backfill_sends hs c (c'\<lparr>db_writes := w\<rparr>) = backfill_sends hs c c'"
  "backfill_sends hs (c\<lparr>count := n\<rparr>) c' = backfill_sends hs c c'"
  "backfill_sends hs (c\<lparr>head := hb\<rparr>) c' = backfill_sends hs c c'"
  "backfill_sends hs (c\<lparr>logger := l\<rparr>) c' = backfill_sends hs c c'"
  by (simp_all add: backfill_sends_def)

lemma handleBlockHeaders_sends:
  assumes "Payload msg = PBlockHeaders rid hs" and "handleBlockHeaders e msg c = (r, c')"
  shows "backfill_sends hs c c'"
  using assms
  by (auto simp: handleBlockHeaders_def Let_def backfill_sends_upd
           split: prod.splits option.splits dest!: backfillHeaders_sends)

lemma handleNewBlock_sends:
  assumes "Payload msg = PNewBlock block td" and "handleNewBlock e msg c = (r, c')"
  shows "backfill_sends [BlockHeader block] c c'"
  using assms
  by (auto simp: handleNewBlock_def Let_def backfill_sends_upd
           split: prod.splits option.splits if_splits dest!: getParentBlock_sends)

subsection \<open>What a fetch allocates\<close>




subsection \<open>The head after a new block\<close>

lemma handleNewBlock_sets_head:
  assumes "Payload msg = PNewBlock block td"
  shows "head (snd (handleNewBlock e msg c)) =
           (if Number (head c) < Uint64 (HeaderNumber (BlockHeader block))
               \<and> TotalDifficulty (head c) < td
            then \<lparr>Hash = BlockHash block, TotalDifficulty = td,
                  Number = Uint64 (HeaderNumber (BlockHeader block))\<rparr>
            else head c)"
  using assms
  by (auto simp: handleNewBlock_def Let_def split: prod.splits option.splits
           dest: getParentBlock_frame(2))

section \<open>The claims\<close>

text \<open>
  C1, as the code has it. The handler reads the block's number with
  \<^verbatim>\<open>Number().Uint64()\<close>. For every new-block message, the shared head is replaced if
  and only if that reading is strictly greater than the head's number and the announced
  total difficulty is strictly greater than the head's (a comparison of unbounded
  integers). The new head is then the whole record of the candidate: its hash, its total
  difficulty, its number as read. Otherwise the head keeps every field. When the block's
  number fits a \<^verbatim>\<open>uint64\<close>, the reading is the number itself, and the head is
  replaced if and only if the block's number and total difficulty both exceed the
  head's. The head here is the value under the write lock; nothing after the lock is
  released touches it.
\<close>

theorem handleNewBlock_head:
  assumes "Payload msg = PNewBlock block td"
  shows "head (snd (handleNewBlock e msg c)) =
           (if Number (head c) < Uint64 (HeaderNumber (BlockHeader block))
               \<and> TotalDifficulty (head c) < td
            then \<lparr>Hash = BlockHash block, TotalDifficulty = td,
                  Number = Uint64 (HeaderNumber (BlockHeader block))\<rparr>
            else head c)
         \<and> (head (snd (handleNewBlock e msg c)) \<noteq> head c \<longleftrightarrow>
              Number (head c) < Uint64 (HeaderNumber (BlockHeader block))
              \<and> TotalDifficulty (head c) < td)
         \<and> (0 \<le> HeaderNumber (BlockHeader block) \<and> HeaderNumber (BlockHeader block) < 2 ^ 64 \<longrightarrow>
              uint (Uint64 (HeaderNumber (BlockHeader block))) = HeaderNumber (BlockHeader block)
              \<and> (head (snd (handleNewBlock e msg c)) \<noteq> head c \<longleftrightarrow>
                   uint (Number (head c)) < HeaderNumber (BlockHeader block)
                   \<and> TotalDifficulty (head c) < td))"
proof -
  let ?n = "HeaderNumber (BlockHeader block)"
  let ?cond = "Number (head c) < Uint64 ?n \<and> TotalDifficulty (head c) < td"
  let ?new = "\<lparr>Hash = BlockHash block, TotalDifficulty = td, Number = Uint64 ?n\<rparr>"
  have h: "head (snd (handleNewBlock e msg c)) = (if ?cond then ?new else head c)"
    by (rule handleNewBlock_sets_head [OF assms])
  have "?new \<noteq> head c" if "?cond"
  proof
    assume "?new = head c"
    then have "Number (head c) = Uint64 ?n" by (metis HeadBlock.select_convs(3))
    with that show False by simp
  qed
  with h have i: "head (snd (handleNewBlock e msg c)) \<noteq> head c \<longleftrightarrow> ?cond"
    by simp
  have r: "uint (Uint64 ?n) = ?n
      \<and> (head (snd (handleNewBlock e msg c)) \<noteq> head c \<longleftrightarrow>
           uint (Number (head c)) < ?n \<and> TotalDifficulty (head c) < td)"
    if "0 \<le> ?n \<and> ?n < 2 ^ 64"
  proof -
    from that have "0 \<le> ?n" "?n < 2 ^ 64" by simp_all
    from Uint64_less [OF this] i show ?thesis by simp
  qed
  from h i r show ?thesis by blast
qed

text \<open>The head is number 10 with total difficulty 100. Block 12 announced with total
  difficulty 150 replaces it; announced with total difficulty 90 it does not.\<close>

theorem handleNewBlock_head_witness:
  "Payload msg_block12_td150 = PNewBlock block12 150
   \<and> Payload msg_block12_td90 = PNewBlock block12 90
   \<and> 0 \<le> HeaderNumber (BlockHeader block12) \<and> HeaderNumber (BlockHeader block12) < 2 ^ 64
   \<and> head conn_ex = \<lparr>Hash = 0x0A, TotalDifficulty = 100, Number = 10\<rparr>
   \<and> head (snd (handleNewBlock env_ok msg_block12_td150 conn_ex)) =
       \<lparr>Hash = 0x0C, TotalDifficulty = 150, Number = 12\<rparr>
   \<and> head (snd (handleNewBlock env_ok msg_block12_td90 conn_ex)) = head conn_ex"
  using handleNewBlock_head [of msg_block12_td150 block12 150 env_ok conn_ex]
    handleNewBlock_head [of msg_block12_td90 block12 90 env_ok conn_ex]
  by (simp add: msg_block12_td150_def msg_block12_td90_def block12_def conn_ex_def
        new_conn_def opts_ex_def Uint64_def)

text \<open>The claim as stated fails for a block number beyond the \<^verbatim>\<open>uint64\<close> range: the
  block \<open>2 ^ 64 + 5\<close> with total difficulty 150 exceeds the head (10, 100) in both, is
  read as number 5, and the head is kept.\<close>

theorem head_kept_counterexample:
  "Payload msg_block_big = PNewBlock block_big 150
   \<and> HeaderNumber (BlockHeader block_big) = 2 ^ 64 + 5
   \<and> head conn_ex = \<lparr>Hash = 0x0A, TotalDifficulty = 100, Number = 10\<rparr>
   \<and> uint (Number (head conn_ex)) < HeaderNumber (BlockHeader block_big)
   \<and> TotalDifficulty (head conn_ex) < 150
   \<and> head (snd (handleNewBlock env_ok msg_block_big conn_ex)) = head conn_ex"
  by (simp add: handleNewBlock_sets_head msg_block_big_def block_big_def conn_ex_def new_conn_def
        opts_ex_def Uint64_def)

text \<open>
  C2, as the code has it. Once the oldest block of a connection is \<open>f\<close>, a header handed
  to the backfill policy either sends nothing or sends requests for its parent hash
  only, and only when the parent's number (the header's number minus one) is not below
  the number of \<open>f\<close>: no block below the floor is requested. The block at the floor's
  own number can be requested, as the parent of a header one above the floor. The same
  holds for every header of a block-headers message and for the header of a new block,
  whether the floor was set before the message or by one of its headers: every message
  the handler sends asks for the parent of one of these headers, at or above the floor.
  The floor, once set, stays the same whatever messages the dispatch loop handles, and
  every fetch logged is at or above it.
\<close>

theorem backfill_never_below_floor:
  "(oldestBlock c = Some f \<and> getParentBlock e hdr c = (r, c') \<longrightarrow>
      oldestBlock c' = Some f
      \<and> (rw_sent c' = rw_sent c
         \<or> HeaderNumber f \<le> HeaderNumber hdr - 1
           \<and> fetchesIssued c' = fetchesIssued c @ [ParentHash hdr]
           \<and> (\<exists>sent. rw_sent c' = rw_sent c @ sent
                 \<and> (\<forall>x\<in>set sent. requestHashes x = [ParentHash hdr]))))
   \<and> (Payload msg = PBlockHeaders rid hs \<and> handleBlockHeaders e msg c = (r, c') \<longrightarrow>
      (\<exists>sent. rw_sent c' = rw_sent c @ sent
         \<and> (\<forall>x\<in>set sent. \<exists>h\<in>set hs. \<exists>g. oldestBlock c' = Some g
               \<and> HeaderNumber g \<le> HeaderNumber h - 1 \<and> requestHashes x = [ParentHash h]))
      \<and> (\<forall>g. oldestBlock c = Some g \<longrightarrow> oldestBlock c' = Some g))
   \<and> (Payload msg = PNewBlock block td \<and> handleNewBlock e msg c = (r, c') \<longrightarrow>
      (\<exists>sent. rw_sent c' = rw_sent c @ sent
         \<and> (\<forall>x\<in>set sent. \<exists>g. oldestBlock c' = Some g
               \<and> HeaderNumber g \<le> HeaderNumber (BlockHeader block) - 1
               \<and> requestHashes x = [ParentHash (BlockHeader block)]))
      \<and> (\<forall>g. oldestBlock c = Some g \<longrightarrow> oldestBlock c' = Some g))
   \<and> (oldestBlock c = Some f \<and> dispatchLoop e evs c = (err, c', rest) \<longrightarrow>
      oldestBlock c' = Some f
      \<and> (\<exists>new. logger c' = logger c @ new
             \<and> (\<forall>n\<in>set (backfillNumbers new). HeaderNumber f \<le> n)))"
proof -
  have a: "oldestBlock c' = Some f
      \<and> (rw_sent c' = rw_sent c
         \<or> HeaderNumber f \<le> HeaderNumber hdr - 1
           \<and> fetchesIssued c' = fetchesIssued c @ [ParentHash hdr]
           \<and> (\<exists>sent. rw_sent c' = rw_sent c @ sent
                 \<and> (\<forall>x\<in>set sent. requestHashes x = [ParentHash hdr])))"
    if "oldestBlock c = Some f \<and> getParentBlock e hdr c = (r, c')"
    using that getParentBlock_floor_set by blast
  have b: "(\<exists>sent. rw_sent c' = rw_sent c @ sent
         \<and> (\<forall>x\<in>set sent. \<exists>h\<in>set hs. \<exists>g. oldestBlock c' = Some g
               \<and> HeaderNumber g \<le> HeaderNumber h - 1 \<and> requestHashes x = [ParentHash h]))
      \<and> (\<forall>g. oldestBlock c = Some g \<longrightarrow> oldestBlock c' = Some g)"
    if "Payload msg = PBlockHeaders rid hs \<and> handleBlockHeaders e msg c = (r, c')"
    using that handleBlockHeaders_sends [of msg rid hs e c r c']
    by (simp add: backfill_sends_def)
  have c: "(\<exists>sent. rw_sent c' = rw_sent c @ sent
         \<and> (\<forall>x\<in>set sent. \<exists>g. oldestBlock c' = Some g
               \<and> HeaderNumber g \<le> HeaderNumber (BlockHeader block) - 1
               \<and> requestHashes x = [ParentHash (BlockHeader block)]))
      \<and> (\<forall>g. oldestBlock c = Some g \<longrightarrow> oldestBlock c' = Some g)"
    if "Payload msg = PNewBlock block td \<and> handleNewBlock e msg c = (r, c')"
    using that handleNewBlock_sends [of msg block td e c r c']
    by (simp add: backfill_sends_def)
  have d: "oldestBlock c' = Some f
      \<and> (\<exists>new. logger c' = logger c @ new
             \<and> (\<forall>n\<in>set (backfillNumbers new). HeaderNumber f \<le> n))"
    if "oldestBlock c = Some f \<and> dispatchLoop e evs c = (err, c', rest)"
    using that dispatchLoop_floor [of c f e evs err c' rest] by (simp add: floor_kept_def)
  from a b c d show ?thesis by blast
qed

text \<open>With the floor at 1000: header 1005 sends the two requests for its parent; the
  headers 1000, 1005 and 1001 in one message send requests for the blocks 1004 and 1000
  only, also when the first of them sets the floor; block 12 sends nothing; and the
  floor is kept.\<close>

theorem backfill_never_below_floor_witness:
  "oldestBlock conn_floor = Some hdr1000
   \<and> oldestBlock (snd (getParentBlock env_ok hdr1005 conn_floor)) = Some hdr1000
   \<and> HeaderNumber hdr1000 \<le> HeaderNumber hdr1005 - 1
   \<and> rw_sent (snd (getParentBlock env_ok hdr1005 conn_floor)) =
       [(OGetBlockHeaders 0 0x1004 1, None), (OGetBlockBodies 1 [0x1004], None)]
   \<and> Payload msg_headers = PBlockHeaders 0 [hdr1000, hdr1005, hdr1001]
   \<and> oldestBlock (snd (handleBlockHeaders env_ok msg_headers conn_floor)) = Some hdr1000
   \<and> oldestBlock (snd (handleBlockHeaders env_ok msg_headers conn_ex)) = Some hdr1000
   \<and> map requestHashes (rw_sent (snd (handleBlockHeaders env_ok msg_headers conn_ex))) =
       [[0x1004], [0x1004], [0x1000], [0x1000]]
   \<and> Payload msg_block12_td150 = PNewBlock block12 150
   \<and> oldestBlock (snd (handleNewBlock env_ok msg_block12_td150 conn_floor)) = Some hdr1000
   \<and> rw_sent (snd (handleNewBlock env_ok msg_block12_td150 conn_floor)) = []
   \<and> oldestBlock (fst (snd (dispatchLoop env_ok [ReadOk msg_headers] conn_floor))) = Some hdr1000
   \<and> backfillNumbers (drop (length (logger conn_floor))
        (logger (fst (snd (dispatchLoop env_ok [ReadOk msg_headers] conn_floor))))) = [1004, 1000]"
proof -
  have f: "oldestBlock conn_floor = Some hdr1000"
    by (simp add: conn_floor_def)
  have ph: "Payload msg_headers = PBlockHeaders 0 [hdr1000, hdr1005, hdr1001]"
    by (simp add: msg_headers_def)
  have pb: "Payload msg_block12_td150 = PNewBlock block12 150"
    by (simp add: msg_block12_td150_def)
  obtain r1 c1 where g1: "getParentBlock env_ok hdr1005 conn_floor = (r1, c1)"
    by (cases "getParentBlock env_ok hdr1005 conn_floor")
  obtain r2 c2 where g2: "handleBlockHeaders env_ok msg_headers conn_floor = (r2, c2)"
    by (cases "handleBlockHeaders env_ok msg_headers conn_floor")
  obtain r3 c3 where g3: "handleNewBlock env_ok msg_block12_td150 conn_floor = (r3, c3)"
    by (cases "handleNewBlock env_ok msg_block12_td150 conn_floor")
  obtain err c4 rest where g4: "dispatchLoop env_ok [ReadOk msg_headers] conn_floor = (err, c4, rest)"
    by (metis prod_cases3)
  have "oldestBlock c1 = Some hdr1000"
    using backfill_never_below_floor [of conn_floor hdr1000 env_ok hdr1005 r1 c1] f g1 by blast
  moreover have "oldestBlock c2 = Some hdr1000"
    using backfill_never_below_floor [where msg = msg_headers and rid = 0
        and hs = "[hdr1000, hdr1005, hdr1001]" and e = env_ok and c = conn_floor and r = r2
        and c' = c2] f g2 ph
    by blast
  moreover have "oldestBlock c3 = Some hdr1000"
    using backfill_never_below_floor [where msg = msg_block12_td150 and block = block12
        and td = 150 and e = env_ok and c = conn_floor and r = r3 and c' = c3] f g3 pb
    by blast
  moreover have "oldestBlock c4 = Some hdr1000"
    using backfill_never_below_floor [where c = conn_floor and f = hdr1000 and e = env_ok
        and evs = "[ReadOk msg_headers]" and err = err and c' = c4 and rest = rest] f g4
    by blast
  moreover have "HeaderNumber hdr1000 \<le> HeaderNumber hdr1005 - 1"
    by (simp add: hdr1000_def hdr1005_def)
  moreover have "rw_sent (snd (getParentBlock env_ok hdr1005 conn_floor)) =
       [(OGetBlockHeaders 0 0x1004 1, None), (OGetBlockBodies 1 [0x1004], None)]"
    by code_simp
  moreover have "oldestBlock (snd (handleBlockHeaders env_ok msg_headers conn_ex)) = Some hdr1000"
    by code_simp
  moreover have "map requestHashes (rw_sent (snd (handleBlockHeaders env_ok msg_headers conn_ex))) =
       [[0x1004], [0x1004], [0x1000], [0x1000]]"
    by code_simp
  moreover have "rw_sent (snd (handleNewBlock env_ok msg_block12_td150 conn_floor)) = []"
    by code_simp
  moreover have "backfillNumbers (drop (length (logger conn_floor))
        (logger (fst (snd (dispatchLoop env_ok [ReadOk msg_headers] conn_floor))))) = [1004, 1000]"
    by code_simp
  ultimately show ?thesis using f ph pb g1 g2 g3 g4 by simp
qed

text \<open>The claim as stated fails at the floor itself: the floor is header 1000, the header
  1001 arrives with a parent that storage does not know, and the parent, block 1000, is
  fetched.\<close>

theorem backfill_at_floor_counterexample:
  "oldestBlock conn_floor = Some hdr1000 \<and> HeaderNumber hdr1000 = 1000
   \<and> logger (snd (handleBlockHeaders env_ok msg_header1001 conn_floor)) =
       logger conn_floor @ [FetchingMissingParent 0x1000 1000]
   \<and> fetchesIssued (snd (handleBlockHeaders env_ok msg_header1001 conn_floor)) = [0x1000]
   \<and> rw_sent (snd (handleBlockHeaders env_ok msg_header1001 conn_floor)) =
       [(OGetBlockHeaders 0 0x1000 1, None), (OGetBlockBodies 1 [0x1000], None)]"
  by code_simp

text \<open>
  C3. A block-bodies response with at least one body: the pending requests are scanned
  from the front for the first entry with the response's identifier. If there is one
  (the list is \<open>pre @ r # post\<close> with no match in \<open>pre\<close>), exactly this entry is removed,
  the first body is written to storage under the hash recorded in the entry, and the
  handler returns no error. If no entry has the identifier, the pending requests stay as
  they are, a warning is logged, nothing is written to storage and the handler returns
  no error.
\<close>

theorem handleBlockBodies_correlation:
  assumes "Payload msg = PBlockBodies rid (b # bs)"
  shows "(requests c = pre @ r # post \<and> (\<forall>x\<in>set pre. requestID x \<noteq> rid) \<and> requestID r = rid \<longrightarrow>
           handleBlockBodies e msg c =
             (None, c\<lparr>count := (count c)\<lparr>BlockBodies := BlockBodies (count c) + int32_len (b # bs)\<rparr>,
                       requests := pre @ post,
                       db_writes := db_writes c @ [WriteBlockBody b (hash r)]\<rparr>))
       \<and> ((\<forall>x\<in>set (requests c). requestID x \<noteq> rid) \<longrightarrow>
           handleBlockBodies e msg c =
             (None, c\<lparr>count := (count c)\<lparr>BlockBodies := BlockBodies (count c) + int32_len (b # bs)\<rparr>,
                       logger := logger c @ [NoBlockHashFound]\<rparr>))"
  using assms
  by (auto simp: handleBlockBodies_def Let_def scanRequests_match scanRequests_no_match)

text \<open>With the pending identifiers 1, 2, 2 the response for 2 removes the first entry with
  identifier 2 and writes the body under its hash; with no pending request it only logs
  the warning.\<close>

theorem handleBlockBodies_correlation_witness:
  "Payload msg_bodies = PBlockBodies 2 (body_a # [body_b])
   \<and> requests conn_pending = [\<lparr>requestID = 1, hash = 0xA1\<rparr>] @ \<lparr>requestID = 2, hash = 0xA2\<rparr>
                                # [\<lparr>requestID = 2, hash = 0xA3\<rparr>]
   \<and> requestID \<lparr>requestID = 1, hash = 0xA1\<rparr> \<noteq> 2
   \<and> requestID \<lparr>requestID = 2, hash = 0xA2\<rparr> = 2
   \<and> fst (handleBlockBodies env_ok msg_bodies conn_pending) = None
   \<and> requests (snd (handleBlockBodies env_ok msg_bodies conn_pending)) =
       [\<lparr>requestID = 1, hash = 0xA1\<rparr>, \<lparr>requestID = 2, hash = 0xA3\<rparr>]
   \<and> db_writes (snd (handleBlockBodies env_ok msg_bodies conn_pending)) = [WriteBlockBody body_a 0xA2]
   \<and> requests conn_ex = []
   \<and> fst (handleBlockBodies env_ok msg_bodies conn_ex) = None
   \<and> requests (snd (handleBlockBodies env_ok msg_bodies conn_ex)) = []
   \<and> db_writes (snd (handleBlockBodies env_ok msg_bodies conn_ex)) = []
   \<and> logger (snd (handleBlockBodies env_ok msg_bodies conn_ex)) = [NoBlockHashFound]"
  using handleBlockBodies_correlation [of msg_bodies 2 body_a "[body_b]" conn_pending
      "[\<lparr>requestID = 1, hash = 0xA1\<rparr>]" "\<lparr>requestID = 2, hash = 0xA2\<rparr>"
      "[\<lparr>requestID = 2, hash = 0xA3\<rparr>]" env_ok]
    handleBlockBodies_correlation [of msg_bodies 2 body_a "[body_b]" conn_ex
      "[]" "\<lparr>requestID = 2, hash = 0xA2\<rparr>" "[]" env_ok]
  by (simp add: msg_bodies_def conn_pending_def conn_ex_def new_conn_def)

text \<open>
  C4. The backfill policy on a header. If the database does not persist blocks or block
  events, nothing happens. Otherwise, if the connection has no oldest block yet, the
  header becomes the oldest block (with a log line) and no fetch is issued. Otherwise,
  if storage knows the parent hash or the header's number is not greater than the
  oldest block's, nothing happens. Otherwise the fetch is logged and \<^verbatim>\<open>getBlockData\<close>
  is called once, for the parent hash: the fetches issued grow by exactly that hash.
\<close>

theorem getParentBlock_policy:
  "(\<not> ShouldWriteBlocks e \<or> \<not> ShouldWriteBlockEvents e \<longrightarrow>
      getParentBlock e hdr c = (None, c))
   \<and> (ShouldWriteBlocks e \<and> ShouldWriteBlockEvents e \<and> oldestBlock c = None \<longrightarrow>
      getParentBlock e hdr c =
        (None, c\<lparr>logger := logger c @ [SettingOldestBlock hdr], oldestBlock := Some hdr\<rparr>)
      \<and> fetchesIssued (snd (getParentBlock e hdr c)) = fetchesIssued c)
   \<and> (ShouldWriteBlocks e \<and> ShouldWriteBlockEvents e \<and> oldestBlock c = Some f
        \<and> (HasBlock e (db_writes c) (ParentHash hdr) \<or> HeaderNumber hdr \<le> HeaderNumber f) \<longrightarrow>
      getParentBlock e hdr c = (None, c))
   \<and> (ShouldWriteBlocks e \<and> ShouldWriteBlockEvents e \<and> oldestBlock c = Some f
        \<and> \<not> HasBlock e (db_writes c) (ParentHash hdr) \<and> HeaderNumber f < HeaderNumber hdr \<longrightarrow>
      getParentBlock e hdr c =
        getBlockData e (ParentHash hdr)
          (c\<lparr>logger := logger c @
               [FetchingMissingParent (ParentHash hdr) (HeaderNumber hdr - 1)]\<rparr>)
      \<and> fetchesIssued (snd (getParentBlock e hdr c)) = fetchesIssued c @ [ParentHash hdr])"
proof -
  have 1: "getParentBlock e hdr c = (None, c)"
    if "\<not> ShouldWriteBlocks e \<or> \<not> ShouldWriteBlockEvents e"
    using that by (auto simp: getParentBlock_def)
  have 2: "getParentBlock e hdr c =
        (None, c\<lparr>logger := logger c @ [SettingOldestBlock hdr], oldestBlock := Some hdr\<rparr>)"
    if "ShouldWriteBlocks e" "ShouldWriteBlockEvents e" "oldestBlock c = None"
    using that by (simp add: getParentBlock_def)
  have 3: "getParentBlock e hdr c = (None, c)"
    if "ShouldWriteBlocks e" "ShouldWriteBlockEvents e" "oldestBlock c = Some f"
      "HasBlock e (db_writes c) (ParentHash hdr) \<or> HeaderNumber hdr \<le> HeaderNumber f"
    using that by (auto simp: getParentBlock_def)
  have 4: "getParentBlock e hdr c =
        getBlockData e (ParentHash hdr)
          (c\<lparr>logger := logger c @
               [FetchingMissingParent (ParentHash hdr) (HeaderNumber hdr - 1)]\<rparr>)"
    if "ShouldWriteBlocks e" "ShouldWriteBlockEvents e" "oldestBlock c = Some f"
      "\<not> HasBlock e (db_writes c) (ParentHash hdr)" "HeaderNumber f < HeaderNumber hdr"
    using that by (simp add: getParentBlock_def)
  have 5: "fetchesIssued (c\<lparr>logger := l, oldestBlock := ob\<rparr>) = fetchesIssued c"
    "fetchesIssued (c\<lparr>logger := l\<rparr>) = fetchesIssued c" for l ob
    by (simp_all add: fetchesIssued_def)
  show ?thesis
    using 1 2 3 4 by (simp add: getBlockData_fetchesIssued 5)
qed

text \<open>Scenario A of the specification: header 1000 arrives first and becomes the floor
  with no fetch; header 1005 with an unknown parent then issues one fetch, for the
  parent hash. Header 1000 again issues none, and nothing happens when the database does
  not persist blocks.\<close>

theorem getParentBlock_policy_witness:
  "\<not> ShouldWriteBlocks env_no_blocks
   \<and> getParentBlock env_no_blocks hdr1005 conn_floor = (None, conn_floor)
   \<and> ShouldWriteBlocks env_ok \<and> ShouldWriteBlockEvents env_ok \<and> oldestBlock conn_ex = None
   \<and> getParentBlock env_ok hdr1000 conn_ex = (None, conn_floor)
   \<and> fetchesIssued conn_floor = []
   \<and> oldestBlock conn_floor = Some hdr1000 \<and> HeaderNumber hdr1000 \<le> HeaderNumber hdr1000
   \<and> getParentBlock env_ok hdr1000 conn_floor = (None, conn_floor)
   \<and> \<not> HasBlock env_ok (db_writes conn_floor) (ParentHash hdr1005)
   \<and> HeaderNumber hdr1000 < HeaderNumber hdr1005
   \<and> fetchesIssued (snd (getParentBlock env_ok hdr1005 conn_floor)) = [0x1004]
   \<and> rw_sent (snd (getParentBlock env_ok hdr1005 conn_floor)) =
       [(OGetBlockHeaders 0 0x1004 1, None), (OGetBlockBodies 1 [0x1004], None)]"
  using getParentBlock_policy [of env_no_blocks hdr1005 conn_floor hdr1000]
    getParentBlock_policy [of env_ok hdr1000 conn_ex hdr1000]
    getParentBlock_policy [of env_ok hdr1000 conn_floor hdr1000]
    getParentBlock_policy [of env_ok hdr1005 conn_floor hdr1000]
  by (simp add: env_no_blocks_def env_ok_def conn_floor_def conn_ex_def new_conn_def
        hdr1000_def hdr1005_def getBlockData_def Send_def fetchesIssued_def)



text \<open>
  C6. The peer is sent to the channel of discovered peers exactly when the status
  exchange succeeded: the local status was sent, the next message read has the status
  code, decodes as a status packet and carries the local network id. It is then sent
  once, after the exchange and before the dispatch loop, which starts with the status
  sent and the peer's status logged. In every other case the channel is as before and
  the loop is not entered: the connection state is the new connection with the one
  status message sent (or its send failed) and no inbound message after the first has
  been read. In particular, when the peer's status message is read and decoded and its
  network id differs from the local one, \<^verbatim>\<open>Run\<close> returns \<^verbatim>\<open>DiscUselessPeer\<close>.
\<close>

theorem Run_publishes_peer:
  "snd (snd (snd (Run opts e p evs))) =
     Opt_Peers opts @
       (if SendResult e [] (OStatus (localStatus opts)) = None
           \<and> (\<exists>m r s. evs = ReadOk m # r \<and> Code m = StatusMsg \<and> Payload m = PStatus s
                 \<and> NetworkID s = Opt_NetworkID opts)
        then [p] else [])
   \<and> (\<not> (SendResult e [] (OStatus (localStatus opts)) = None
           \<and> (\<exists>m r s. evs = ReadOk m # r \<and> Code m = StatusMsg \<and> Payload m = PStatus s
                 \<and> NetworkID s = Opt_NetworkID opts)) \<longrightarrow>
      fst (snd (Run opts e p evs)) =
        (new_conn opts p)\<lparr>rw_sent := [(OStatus (localStatus opts),
                                          SendResult e [] (OStatus (localStatus opts)))]\<rparr>
      \<and> fst (snd (snd (Run opts e p evs))) =
          (if SendResult e [] (OStatus (localStatus opts)) = None then tl evs else evs))
   \<and> (SendResult e [] (OStatus (localStatus opts)) = None \<and> evs = ReadOk msg # rest
        \<and> Code msg = StatusMsg \<and> Payload msg = PStatus status
        \<and> NetworkID status \<noteq> Opt_NetworkID opts \<longrightarrow>
      Run opts e p evs =
        (DiscUselessPeer, (new_conn opts p)\<lparr>rw_sent := [(OStatus (localStatus opts), None)]\<rparr>,
         rest, Opt_Peers opts))
   \<and> (SendResult e [] (OStatus (localStatus opts)) = None \<and> evs = ReadOk msg # rest
        \<and> Code msg = StatusMsg \<and> Payload msg = PStatus status
        \<and> NetworkID status = Opt_NetworkID opts \<longrightarrow>
      Run opts e p evs =
        (case dispatchLoop e rest
                ((new_conn opts p)\<lparr>rw_sent := [(OStatus (localStatus opts), None)],
                                     logger := [NewPeer status]\<rparr>) of
           (err, c2, rest') \<Rightarrow> (err, c2, rest', Opt_Peers opts @ [p])))"
proof -
  let ?st = "localStatus opts"
  let ?c = "new_conn opts p"
  let ?ok = "SendResult e [] (OStatus ?st) = None
           \<and> (\<exists>m r s. evs = ReadOk m # r \<and> Code m = StatusMsg \<and> Payload m = PStatus s
                 \<and> NetworkID s = Opt_NetworkID opts)"
  have rw: "rw_sent ?c = []" and lg: "logger ?c = []" and nid: "NetworkID ?st = Opt_NetworkID opts"
    by (simp_all add: new_conn_def localStatus_def)
  have iff: "fst (statusExchange e ?st evs ?c) = None \<longleftrightarrow> ?ok"
    unfolding statusExchange_ok_iff rw nid by blast
  have a: "snd (snd (snd (Run opts e p evs))) = Opt_Peers opts @ (if ?ok then [p] else [])"
    unfolding iff [symmetric]
    by (simp add: Run_def Let_def split: prod.splits option.splits)
  have b: "fst (snd (Run opts e p evs)) =
        ?c\<lparr>rw_sent := [(OStatus ?st, SendResult e [] (OStatus ?st))]\<rparr>
      \<and> fst (snd (snd (Run opts e p evs))) =
          (if SendResult e [] (OStatus ?st) = None then tl evs else evs)"
    if "\<not> ?ok"
  proof -
    from that iff have f: "fst (statusExchange e ?st evs ?c) \<noteq> None" by blast
    from statusExchange_failed [OF f] f show ?thesis
      by (auto simp: Run_def Let_def rw split: prod.splits option.splits)
  qed
  have c: "Run opts e p evs =
        (DiscUselessPeer, ?c\<lparr>rw_sent := [(OStatus ?st, None)]\<rparr>, rest, Opt_Peers opts)"
    if "SendResult e [] (OStatus ?st) = None" "evs = ReadOk msg # rest"
      "Code msg = StatusMsg" "Payload msg = PStatus status"
      "NetworkID status \<noteq> Opt_NetworkID opts"
    using that
    by (simp add: Run_def Let_def statusExchange_def Send_def new_conn_def localStatus_def)
  have d: "Run opts e p evs =
        (case dispatchLoop e rest (?c\<lparr>rw_sent := [(OStatus ?st, None)],
                                       logger := [NewPeer status]\<rparr>) of
           (err, c2, rest') \<Rightarrow> (err, c2, rest', Opt_Peers opts @ [p]))"
    if "SendResult e [] (OStatus ?st) = None" "evs = ReadOk msg # rest"
      "Code msg = StatusMsg" "Payload msg = PStatus status"
      "NetworkID status = Opt_NetworkID opts"
  proof -
    have "statusExchange e ?st evs ?c =
        (None, ?c\<lparr>rw_sent := rw_sent ?c @ [(OStatus ?st, None)],
                   logger := logger ?c @ [NewPeer status]\<rparr>, rest)"
      using that by (intro statusExchange_succeeded) (simp_all add: rw nid)
    then show ?thesis by (simp add: Run_def Let_def rw lg)
  qed
  from a b c d show ?thesis by blast
qed

text \<open>A peer of network 1 met by a sensor of network 137 is dropped with the block
  message unread and nothing published; a peer of network 137 is published once and its
  block message is handled.\<close>

theorem Run_publishes_peer_witness:
  "SendResult env_ok [] (OStatus (localStatus opts_ex)) = None
   \<and> Code msg_status_mainnet = StatusMsg \<and> Payload msg_status_mainnet = PStatus status_mainnet
   \<and> NetworkID status_mainnet \<noteq> Opt_NetworkID opts_ex
   \<and> Run opts_ex env_ok 7 [ReadOk msg_status_mainnet, ReadOk msg_block12_td150] =
       (DiscUselessPeer, conn_ex\<lparr>rw_sent := [(OStatus (localStatus opts_ex), None)]\<rparr>,
        [ReadOk msg_block12_td150], [])
   \<and> Code msg_status_polygon = StatusMsg \<and> Payload msg_status_polygon = PStatus status_polygon
   \<and> NetworkID status_polygon = Opt_NetworkID opts_ex
   \<and> snd (snd (snd (Run opts_ex env_ok 7 [ReadOk msg_status_polygon, ReadOk msg_block12_td150]))) = [7]
   \<and> fst (snd (snd (Run opts_ex env_ok 7 [ReadOk msg_status_polygon, ReadOk msg_block12_td150]))) = []
   \<and> snd (snd (snd (Run opts_ex env_ok 7 [ReadErr (TransportError 3), ReadOk msg_block12_td150]))) = []
   \<and> fst (snd (snd (Run opts_ex env_ok 7 [ReadErr (TransportError 3), ReadOk msg_block12_td150]))) =
       [ReadOk msg_block12_td150]"
proof -
  have a: "SendResult env_ok [] (OStatus (localStatus opts_ex)) = None"
    by (simp add: env_ok_def)
  have b: "Code msg_status_mainnet = StatusMsg" "Payload msg_status_mainnet = PStatus status_mainnet"
    "NetworkID status_mainnet \<noteq> Opt_NetworkID opts_ex"
    "Code msg_status_polygon = StatusMsg" "Payload msg_status_polygon = PStatus status_polygon"
    "NetworkID status_polygon = Opt_NetworkID opts_ex"
    by (simp_all add: msg_status_mainnet_def status_mainnet_def msg_status_polygon_def
          status_polygon_def opts_ex_def)
  have "Run opts_ex env_ok 7 [ReadOk msg_status_mainnet, ReadOk msg_block12_td150] =
       (DiscUselessPeer, conn_ex\<lparr>rw_sent := [(OStatus (localStatus opts_ex), None)]\<rparr>,
        [ReadOk msg_block12_td150], [])"
    using Run_publishes_peer [of opts_ex env_ok 7
        "[ReadOk msg_status_mainnet, ReadOk msg_block12_td150]"
        msg_status_mainnet "[ReadOk msg_block12_td150]" status_mainnet] a b
    by (simp add: conn_ex_def opts_ex_def)
  moreover have "snd (snd (snd (Run opts_ex env_ok 7
      [ReadOk msg_status_polygon, ReadOk msg_block12_td150]))) = [7]"
    using Run_publishes_peer [of opts_ex env_ok 7
        "[ReadOk msg_status_polygon, ReadOk msg_block12_td150]"
        msg_status_polygon "[ReadOk msg_block12_td150]" status_polygon] a b
    by (auto simp: opts_ex_def)
  moreover have "fst (snd (snd (Run opts_ex env_ok 7
      [ReadOk msg_status_polygon, ReadOk msg_block12_td150]))) = []"
    by code_simp
  moreover have "snd (snd (snd (Run opts_ex env_ok 7
        [ReadErr (TransportError 3), ReadOk msg_block12_td150]))) = []
      \<and> fst (snd (snd (Run opts_ex env_ok 7
        [ReadErr (TransportError 3), ReadOk msg_block12_td150]))) = [ReadOk msg_block12_td150]"
    using Run_publishes_peer [of opts_ex env_ok 7
        "[ReadErr (TransportError 3), ReadOk msg_block12_td150]"
        msg_status_polygon "[ReadOk msg_block12_td150]" status_polygon] a
    by (simp add: opts_ex_def)
  ultimately show ?thesis using a b by simp
qed

text \<open>
  C7. A block-bodies response with an empty list of bodies: the handler returns no error
  and the connection state is the one before, so no counter and no pending request
  changes.
\<close>

theorem handleBlockBodies_empty:
  assumes "Payload msg = PBlockBodies rid []"
  shows "handleBlockBodies e msg c = (None, c)"
  using assms by (simp add: handleBlockBodies_def)

theorem handleBlockBodies_empty_witness:
  "Payload msg_empty_bodies = PBlockBodies 2 []
   \<and> handleBlockBodies env_ok msg_empty_bodies conn_pending = (None, conn_pending)"
  using handleBlockBodies_empty [of msg_empty_bodies 2 env_ok conn_pending]
  by (simp add: msg_empty_bodies_def)

text \<open>
  C8, as the code has it. A decoded message with \<open>N\<close> items of a counted category adds
  \<open>N\<close> to the counter of that category and leaves the other counters as they are,
  whether or not the handler fails later: block hashes, transactions (plain and pooled),
  headers, bodies, and one for a new block. The counters are \<^verbatim>\<open>int32\<close> and the
  addition wraps around: the counter grows by exactly \<open>N\<close>, and so does not decrease,
  when the sum stays below \<open>2 ^ 31\<close>.
\<close>

theorem handlers_count:
  "(Payload msg = PNewBlockHashes packet \<longrightarrow>
      count (snd (handleNewBlockHashes e msg c)) =
        (count c)\<lparr>BlockHashes := BlockHashes (count c) + int32_len packet\<rparr>)
   \<and> (Payload msg = PTransactions txs \<longrightarrow>
      count (snd (handleTransactions e msg c)) =
        (count c)\<lparr>Transactions := Transactions (count c) + int32_len txs\<rparr>)
   \<and> (Payload msg = PPooledTransactions rid txs \<longrightarrow>
      count (snd (handlePooledTransactions e msg c)) =
        (count c)\<lparr>Transactions := Transactions (count c) + int32_len txs\<rparr>)
   \<and> (Payload msg = PBlockHeaders rid headers \<longrightarrow>
      count (snd (handleBlockHeaders e msg c)) =
        (count c)\<lparr>BlockHeaders := BlockHeaders (count c) + int32_len headers\<rparr>)
   \<and> (Payload msg = PBlockBodies rid bodies \<longrightarrow>
      count (snd (handleBlockBodies e msg c)) =
        (count c)\<lparr>BlockBodies := BlockBodies (count c) + int32_len bodies\<rparr>)
   \<and> (Payload msg = PNewBlock block td \<longrightarrow>
      count (snd (handleNewBlock e msg c)) = (count c)\<lparr>Blocks := Blocks (count c) + 1\<rparr>)
   \<and> (sint x + int (length xs) < 2 ^ 31 \<longrightarrow>
      sint (x + int32_len xs) = sint x + int (length xs))
   \<and> (sint x + 1 < 2 ^ 31 \<longrightarrow> sint (x + 1) = sint x + 1)"
  by (simp add: handleNewBlockHashes_count handleTransactions_count
        handlePooledTransactions_count handleBlockHeaders_count handleBlockBodies_count
        handleNewBlock_count sint_add_len sint_add_one)

theorem handlers_count_witness:
  "BlockHashes (count (snd (handleNewBlockHashes env_ok msg_hashes conn_ex))) = 2
   \<and> Transactions (count (snd (handleTransactions env_ok msg_txs conn_ex))) = 3
   \<and> Transactions (count (snd (handlePooledTransactions env_ok msg_pooled conn_ex))) = 1
   \<and> BlockHeaders (count (snd (handleBlockHeaders env_ok msg_headers conn_ex))) = 3
   \<and> BlockBodies (count (snd (handleBlockBodies env_ok msg_bodies conn_ex))) = 2
   \<and> Blocks (count (snd (handleNewBlock env_ok msg_block12_td150 conn_ex))) = 1
   \<and> sint ((5 :: int32) + int32_len [body_a, body_b]) = 7
   \<and> sint ((5 :: int32) + 1) = 6"
  using handlers_count [where msg = msg_hashes and packet = "[(0xB1, 21), (0xB2, 22)]"
      and e = env_ok and c = conn_ex and x = 5 and xs = "[body_a, body_b]"]
    handlers_count [where msg = msg_txs and txs = "[1, 2, 3]" and e = env_ok and c = conn_ex
      and x = 5 and xs = "[body_a, body_b]"]
    handlers_count [where msg = msg_pooled and txs = "[4]" and rid = 0 and e = env_ok
      and c = conn_ex and x = 5 and xs = "[body_a, body_b]"]
    handlers_count [where msg = msg_headers and headers = "[hdr1000, hdr1005, hdr1001]"
      and rid = 0 and e = env_ok and c = conn_ex and x = 5 and xs = "[body_a, body_b]"]
    handlers_count [where msg = msg_bodies and bodies = "[body_a, body_b]" and rid = 2
      and e = env_ok and c = conn_ex and x = 5 and xs = "[body_a, body_b]"]
    handlers_count [where msg = msg_block12_td150 and block = block12 and td = 150
      and e = env_ok and c = conn_ex and x = 5 and xs = "[body_a, body_b]"]
  by (simp add: msg_hashes_def msg_txs_def msg_pooled_def msg_headers_def msg_bodies_def
        msg_block12_td150_def conn_ex_def new_conn_def opts_ex_def zero_count_def int32_len_def)

text \<open>The claim as stated fails where the counter wraps around: with the counter of
  blocks at \<open>2 ^ 31 - 1\<close>, one more new-block message leaves it at \<open>- 2 ^ 31\<close>.\<close>

theorem counter_decreases_counterexample:
  "Payload msg_block12_td150 = PNewBlock block12 150
   \<and> sint (Blocks (count conn_full)) = 2147483647
   \<and> sint (Blocks (count (snd (handleNewBlock env_ok msg_block12_td150 conn_full)))) = - 2147483648"
  by (simp add: handleNewBlock_count msg_block12_td150_def conn_full_def zero_count_def)

text \<open>
  C9. A block-bodies response with the bodies \<open>b # bs\<close> that matches a pending request
  (\<open>r\<close> is the first entry with the response's identifier): the only write to storage is
  that of the first body \<open>b\<close>, under the hash of \<open>r\<close>; the bodies counter grows by the
  number of all bodies of the response, \<open>bs\<close> included.
\<close>

theorem handleBlockBodies_first_body_only:
  assumes "Payload msg = PBlockBodies rid (b # bs)"
    and "find (\<lambda>r. requestID r = rid) (requests c) = Some r"
  shows "db_writes (snd (handleBlockBodies e msg c)) = db_writes c @ [WriteBlockBody b (hash r)]
       \<and> BlockBodies (count (snd (handleBlockBodies e msg c))) =
           BlockBodies (count c) + word_of_nat (1 + length bs)"
  using assms(1) scanRequests_find [OF assms(2)]
  by (auto simp: handleBlockBodies_def Let_def int32_len_def)

theorem handleBlockBodies_first_body_only_witness:
  "Payload msg_bodies = PBlockBodies 2 (body_a # [body_b])
   \<and> find (\<lambda>r. requestID r = 2) (requests conn_pending) = Some \<lparr>requestID = 2, hash = 0xA2\<rparr>
   \<and> db_writes (snd (handleBlockBodies env_ok msg_bodies conn_pending)) = [WriteBlockBody body_a 0xA2]
   \<and> BlockBodies (count (snd (handleBlockBodies env_ok msg_bodies conn_pending))) = 2"
  using handleBlockBodies_first_body_only [of msg_bodies 2 body_a "[body_b]" conn_pending
      "\<lparr>requestID = 2, hash = 0xA2\<rparr>" env_ok]
  by (simp add: msg_bodies_def conn_pending_def conn_ex_def new_conn_def opts_ex_def zero_count_def)

text \<open>
  C10. \<^verbatim>\<open>getBlockData\<close>: when the send of the get-headers request fails, the error is
  returned, and the request counter and the pending requests are as before. When it
  succeeds, the counter is incremented and the entry appended whatever the send of the
  get-bodies request returns, and that result is what the function returns: a failed
  get-bodies send leaves the new entry pending.
\<close>

theorem getBlockData_send_failure:
  "(SendResult e (rw_sent c) (OGetBlockHeaders 0 h 1) = Some err \<longrightarrow>
      fst (getBlockData e h c) = Some err \<and>
      requestNum (snd (getBlockData e h c)) = requestNum c \<and>
      requests (snd (getBlockData e h c)) = requests c)
   \<and> (SendResult e (rw_sent c) (OGetBlockHeaders 0 h 1) = None \<longrightarrow>
      fst (getBlockData e h c) =
        SendResult e (rw_sent c @ [(OGetBlockHeaders 0 h 1, None)])
          (OGetBlockBodies (requestNum c + 1) [h]) \<and>
      requestNum (snd (getBlockData e h c)) = requestNum c + 1 \<and>
      requests (snd (getBlockData e h c)) =
        requests c @ [\<lparr>requestID = requestNum c + 1, hash = h\<rparr>])"
  by (simp add: getBlockData_fail getBlockData_ok)

theorem getBlockData_send_failure_witness:
  "SendResult env_headers_fail (rw_sent conn_ex) (OGetBlockHeaders 0 5 1) = Some (TransportError 1)
   \<and> fst (getBlockData env_headers_fail 5 conn_ex) = Some (TransportError 1)
   \<and> requestNum (snd (getBlockData env_headers_fail 5 conn_ex)) = 0
   \<and> requests (snd (getBlockData env_headers_fail 5 conn_ex)) = []
   \<and> SendResult env_bodies_fail (rw_sent conn_ex) (OGetBlockHeaders 0 5 1) = None
   \<and> fst (getBlockData env_bodies_fail 5 conn_ex) = Some (TransportError 2)
   \<and> requestNum (snd (getBlockData env_bodies_fail 5 conn_ex)) = 1
   \<and> requests (snd (getBlockData env_bodies_fail 5 conn_ex)) = [\<lparr>requestID = 1, hash = 5\<rparr>]"
  using getBlockData_send_failure [of env_headers_fail conn_ex 5 "TransportError 1"]
    getBlockData_send_failure [of env_bodies_fail conn_ex 5 "TransportError 1"]
  by (simp add: env_headers_fail_def env_bodies_fail_def env_ok_def conn_ex_def new_conn_def)

end
